theory Spec2Isabelle
  imports Main "HOL-Library.Word" "HOL-Library.AList"
begin

unbundle bit_operations_syntax

section \<open>Expression model\<close>

text \<open>The operator vocabulary \<open>enum ExprTreeOp\<close>, in declaration order
  (\<open>ETO_PC\<close> is the enumerator with value 0).\<close>

datatype ExprTreeOp =
    ETO_PC | ETO_ADD | ETO_SUB | ETO_AND | ETO_OR | ETO_MUL | ETO_DIV | ETO_UDIV
  | ETO_SDIV | ETO_SREM | ETO_FMUL | ETO_FDIV | ETO_SHL | ETO_LSHR | ETO_DOUBLE
  | ETO_PHI | ETO_ICMP | ETO_FCMP | ETO_MEMOP | ETO_CONST | ETO_PHI_TERM
  | ETO_BDIMX | ETO_BDIMY | ETO_BIDX | ETO_BIDY | ETO_TIDX | ETO_TIDY | ETO_ARG
  | ETO_GEP | ETO_ZEXT | ETO_SEXT | ETO_FREEZE | ETO_TRUNC | ETO_FPTOSI
  | ETO_UITOFP | ETO_SITOFP | ETO_SELECT | ETO_ATOMICRMW | ETO_UNDEF
  | ETO_INCOMP | ETO_UNKNOWN | ETO_CALL | ETO_INTERM | ETO_LOAD | ETO_NONE

text \<open>Failures of the C++ code that are not ordinary return values: a failed
  \<open>assert\<close>, an exception thrown by \<open>std::stoi\<close>, and the undefined
  behaviours the code can run into (null or uninitialised pointer, \<open>top\<close> of an
  empty stack, indexing an empty vector, reading past the end of a vector, an
  oversized shift, a division by zero, a signed overflow).\<close>

datatype error =
    AssertionFailed | InvalidArgument | OutOfRange | NullDereference
  | EmptyStackTop | UninitialisedResult | EmptyVectorIndex | ShiftTooLarge
  | DivideByZero | PastTheEnd | SignedOverflow

subsection \<open>Token classification\<close>

text \<open>\<open>llvm::isDigit\<close> (StringExtras.h): \<open>C >= '0' && C <= '9'\<close>.\<close>

definition isDigit :: "char \<Rightarrow> bool" where
  "isDigit c = (48 \<le> (of_char c :: nat) \<and> (of_char c :: nat) \<le> 57)"

text \<open>The loop of \<open>isNumber\<close>: the first argument is the whole token \<open>op\<close>,
  the second the characters \<open>op[i..]\<close> still to be visited.\<close>

fun isNumber_loop :: "string \<Rightarrow> string \<Rightarrow> bool" where
  "isNumber_loop op [] = True"
| "isNumber_loop op (c # cs) =
     (if op ! 0 = CHR ''-'' then isNumber_loop op cs
      else if \<not> isDigit c then False
      else isNumber_loop op cs)"

definition isNumber :: "string \<Rightarrow> bool" where
  "isNumber op = isNumber_loop op op"

text \<open>\<open>getExprTreeOp\<close>: the chain of string comparisons, in source order. The
  second comparison with \<open>LOAD\<close> (returning \<open>ETO_LOAD\<close>) is kept where the
  source has it, behind the first one. The final \<open>assert(0)\<close> is the error
  \<open>AssertionFailed\<close>.\<close>

definition getExprTreeOp :: "string \<Rightarrow> error + ExprTreeOp" where
  "getExprTreeOp op =
    (if isNumber op then Inr ETO_CONST
     else if op = ''PC'' then Inr ETO_PC
     else if op = ''ADD'' then Inr ETO_ADD
     else if op = ''SUB'' then Inr ETO_SUB
     else if op = ''AND'' then Inr ETO_AND
     else if op = ''OR'' then Inr ETO_OR
     else if op = ''MUL'' then Inr ETO_MUL
     else if op = ''SHL'' then Inr ETO_SHL
     else if op = ''LSHR'' then Inr ETO_LSHR
     else if op = ''DIV'' then Inr ETO_DIV
     else if op = ''UDIV'' then Inr ETO_UDIV
     else if op = ''SDIV'' then Inr ETO_SDIV
     else if op = ''SREM'' then Inr ETO_SREM
     else if op = ''FDIV'' then Inr ETO_FDIV
     else if op = ''FMUL'' then Inr ETO_FMUL
     else if op = ''PHI'' then Inr ETO_PHI
     else if op = ''ICMP'' then Inr ETO_ICMP
     else if op = ''FCMP'' then Inr ETO_FCMP
     else if op = ''LOAD'' then Inr ETO_MEMOP
     else if op = ''STORE'' then Inr ETO_MEMOP
     else if op = ''TIDX'' then Inr ETO_TIDX
     else if op = ''TIDY'' then Inr ETO_TIDY
     else if op = ''BIDX'' then Inr ETO_BIDX
     else if op = ''BIDY'' then Inr ETO_BIDY
     else if op = ''BDIMX'' then Inr ETO_BDIMX
     else if op = ''BDIMY'' then Inr ETO_BDIMY
     else if op = ''GEP'' then Inr ETO_GEP
     else if op = ''ZEXT'' then Inr ETO_ZEXT
     else if op = ''SEXT'' then Inr ETO_SEXT
     else if op = ''FREEZE'' then Inr ETO_FREEZE
     else if op = ''double'' then Inr ETO_DOUBLE
     else if op = ''TRUNC'' then Inr ETO_TRUNC
     else if op = ''FPTOSI'' then Inr ETO_FPTOSI
     else if op = ''SITOFP'' then Inr ETO_SITOFP
     else if op = ''UITOFP'' then Inr ETO_UITOFP
     else if op = ''SELECT'' then Inr ETO_SELECT
     else if op = ''CALL'' then Inr ETO_CALL
     else if op = ''ATOMICRMW'' then Inr ETO_ATOMICRMW
     else if op = ''UNDEF'' then Inr ETO_UNDEF
     else if op = ''LOAD'' then Inr ETO_LOAD
     else if op = ''INCOMP'' then Inr ETO_INCOMP
     else if op = ''UNKNOWN'' then Inr ETO_UNKNOWN
     else if take 3 op = ''ARG'' then Inr ETO_ARG
     else if take 3 op = ''PHI'' then Inr ETO_PHI
     else Inl AssertionFailed)"


text \<open>\<open>std::stoi\<close> (base 10), as the C++ standard library specifies it: leading
  white space is skipped, an optional sign is read, then the longest run of digits;
  \<open>std::invalid_argument\<close> when there is no digit, \<open>std::out_of_range\<close> when
  the number does not fit an \<open>int\<close>. Characters after the digits are ignored.\<close>

definition isspace :: "char \<Rightarrow> bool" where
  "isspace c = ((of_char c :: nat) \<in> {9, 10, 11, 12, 13, 32})"

definition digitsValue :: "string \<Rightarrow> int" where
  "digitsValue ds = foldl (\<lambda>acc c. acc * 10 + (int (of_char c) - 48)) 0 ds"

definition stoi :: "string \<Rightarrow> error + int" where
  "stoi str =
    (let s = dropWhile isspace str;
         neg = (case s of [] \<Rightarrow> False | c # _ \<Rightarrow> c = CHR ''-'');
         body = (case s of [] \<Rightarrow> []
                  | c # cs \<Rightarrow> if c = CHR ''-'' \<or> c = CHR ''+'' then cs else s);
         ds = takeWhile isDigit body;
         v = (if neg then - digitsValue ds else digitsValue ds)
     in if ds = [] then Inl InvalidArgument
        else if v < - (2 ^ 31) \<or> 2 ^ 31 - 1 < v then Inl OutOfRange
        else Inr v)"

text \<open>\<open>getExprTreeNodeArg\<close>: \<open>stoi(op.substr(3))\<close>, converted to \<open>unsigned\<close>.\<close>

definition getExprTreeNodeArg :: "string \<Rightarrow> error + 32 word" where
  "getExprTreeNodeArg op =
    (case stoi (drop 3 op) of Inl e \<Rightarrow> Inl e | Inr v \<Rightarrow> Inr (word_of_int v))"

text \<open>\<open>getExprTreePhiArg\<close> has the body of \<open>getExprTreeNodeArg\<close>.\<close>

definition getExprTreePhiArg :: "string \<Rightarrow> error + 32 word" where
  "getExprTreePhiArg op = (case stoi (drop 3 op) of Inl e \<Rightarrow> Inl e | Inr v \<Rightarrow> Inr (word_of_int v))"

subsection \<open>Nodes and the node store\<close>

text \<open>\<open>struct ExprTreeNode\<close> and \<open>struct ExprTreeNodeAdvanced\<close>. The two structs
  have the same fields but for the children (an array of two pointers in the
  first, a vector of pointers in the second), so the common fields are a record
  that both extend. Nodes live in a store (a list); a node pointer is an index
  into the store and \<open>nullptr\<close> is \<open>None\<close>. The array \<open>children[2]\<close> is the
  pair of fields \<open>children0\<close>, \<open>children1\<close>; the field \<open>value\<close> is \<open>val\<close>.\<close>

record NodeFields =
  op :: ExprTreeOp
  arg :: "32 word"
  val :: "64 word"
  original_str :: string
  parent :: "nat option"
  isProb :: bool

record ExprTreeNode = NodeFields +
  children0 :: "nat option"
  children1 :: "nat option"

record ExprTreeNodeAdvanced = NodeFields +
  children :: "nat list"

type_synonym heap = "ExprTreeNode list"

type_synonym heapAdvanced = "ExprTreeNodeAdvanced list"

text \<open>\<open>new ExprTreeNode()\<close>: value-initialisation zeroes every field, so the
  operator kind is the enumerator 0, \<open>ETO_PC\<close>.\<close>

definition new_ExprTreeNode :: ExprTreeNode where
  "new_ExprTreeNode =
    \<lparr>op = ETO_PC, arg = 0, val = 0, original_str = [], parent = None,
     isProb = False, children0 = None, children1 = None\<rparr>"

definition new_ExprTreeNodeAdvanced :: ExprTreeNodeAdvanced where
  "new_ExprTreeNodeAdvanced =
    \<lparr>op = ETO_PC, arg = 0, val = 0, original_str = [], parent = None,
     isProb = False, children = []\<rparr>"

text \<open>The sets filled by \<open>setTerminalsAndOperations\<close>, which \<open>runOnModule\<close> calls
  before any tree is built.\<close>

definition terminals :: "ExprTreeOp set" where
  "terminals = {ETO_TIDX, ETO_TIDY, ETO_BIDX, ETO_BIDY, ETO_BDIMX, ETO_BDIMY,
     ETO_PHI_TERM, ETO_ARG, ETO_CONST, ETO_INTERM, ETO_INCOMP}"

definition operations :: "ExprTreeOp set" where
  "operations = {ETO_ADD, ETO_AND, ETO_SUB, ETO_OR, ETO_MUL, ETO_UDIV, ETO_SDIV,
     ETO_SHL, ETO_PHI, ETO_ICMP}"

definition isTerminal :: "'a NodeFields_scheme \<Rightarrow> bool" where
  "isTerminal node = (op node \<in> terminals)"

definition isPhiNode :: "ExprTreeNode \<Rightarrow> bool" where
  "isPhiNode node = (op node = ETO_PHI)"

definition isOperation :: "'a NodeFields_scheme \<Rightarrow> bool" where
  "isOperation node = (op node \<in> operations)"

subsection \<open>The binary tree builder\<close>

text \<open>First loop of \<open>createExpressionTree\<close>: one fresh node per token, appended to
  the store (\<open>RPN_Nodes\<close> is then the list of the new indices).\<close>

fun createNodes :: "string list \<Rightarrow> error + ExprTreeNode list" where
  "createNodes [] = Inr []"
| "createNodes (str # strs) =
    (case getExprTreeOp str of
       Inl e \<Rightarrow> Inl e
     | Inr k \<Rightarrow>
        (case createNodes strs of
           Inl e \<Rightarrow> Inl e
         | Inr ns \<Rightarrow>
            Inr (new_ExprTreeNode\<lparr>op := k, original_str := str, parent := None\<rparr> # ns)))"

text \<open>Second loop: the argument index of every \<open>ETO_ARG\<close> node.\<close>

fun setArgs :: "heap \<Rightarrow> nat list \<Rightarrow> error + heap" where
  "setArgs h [] = Inr h"
| "setArgs h (node # rest) =
    (if op (h ! node) = ETO_ARG then
       (case getExprTreeNodeArg (original_str (h ! node)) of
          Inl e \<Rightarrow> Inl e
        | Inr a \<Rightarrow> setArgs (h[node := (h ! node)\<lparr>arg := a\<rparr>]) rest)
     else setArgs h rest)"

text \<open>The four assignments that hang two popped nodes under an operator node.\<close>

definition attachChildren :: "heap \<Rightarrow> nat \<Rightarrow> nat \<Rightarrow> nat \<Rightarrow> heap" where
  "attachChildren h node child1 child2 =
    (let h1 = h[child1 := (h ! child1)\<lparr>parent := Some node\<rparr>];
         h2 = h1[child2 := (h1 ! child2)\<lparr>parent := Some node\<rparr>]
     in h2[node := (h2 ! node)\<lparr>children0 := Some child1, children1 := Some child2\<rparr>])"

text \<open>One iteration of the third loop ("make tree using stack"). The state is
  the store, the stack (top first) and \<open>phi_term_seen\<close>. \<open>Inl h\<close> is the early
  \<open>return nullptr\<close> on an empty stack.\<close>

definition treeStep ::
  "heap \<Rightarrow> nat \<Rightarrow> nat list \<Rightarrow> bool \<Rightarrow> heap + (heap \<times> nat list \<times> bool)" where
  "treeStep h node stack phi_term_seen =
    (if isPhiNode (h ! node) then
       (if phi_term_seen = False then
          Inr (h[node := (h ! node)\<lparr>op := ETO_PHI_TERM\<rparr>], node # stack, True)
        else
          (case stack of
             [] \<Rightarrow> Inl h
           | child1 # stack1 \<Rightarrow>
              (case stack1 of
                 [] \<Rightarrow> Inl h
               | child2 # stack2 \<Rightarrow>
                  Inr (attachChildren h node child1 child2, node # stack2, False))))
     else if isOperation (h ! node) then
       (case stack of
          [] \<Rightarrow> Inl h
        | child1 # stack1 \<Rightarrow>
           (case stack1 of
              [] \<Rightarrow> Inl h
            | child2 # stack2 \<Rightarrow>
               Inr (attachChildren h node child1 child2, node # stack2, phi_term_seen)))
     else Inr (h, node # stack, phi_term_seen))"

fun makeTree ::
  "heap \<Rightarrow> nat list \<Rightarrow> nat list \<Rightarrow> bool \<Rightarrow> heap + (heap \<times> nat list \<times> bool)" where
  "makeTree h [] stack phi_term_seen = Inr (h, stack, phi_term_seen)"
| "makeTree h (node # rest) stack phi_term_seen =
    (case treeStep h node stack phi_term_seen of
       Inl h' \<Rightarrow> Inl h'
     | Inr (h', stack', seen') \<Rightarrow> makeTree h' rest stack' seen')"

text \<open>\<open>createExpressionTree\<close>. The token vector is reversed first; the result is
  the updated store and the root pointer (\<open>None\<close> for \<open>nullptr\<close>). The closing
  call of \<open>traverseExpressionTree\<close> only prints and is left out.\<close>

definition createExpressionTree :: "heap \<Rightarrow> string list \<Rightarrow> error + (heap \<times> nat option)" where
  "createExpressionTree h RPN0 =
    (let RPN = rev RPN0 in
     if length RPN = 0 then Inr (h, None)
     else if length RPN > 50 then Inr (h @ [new_ExprTreeNode\<lparr>op := ETO_PC\<rparr>], Some (length h))
     else if RPN ! 0 = ''INCOMP'' then
       Inr (h @ [new_ExprTreeNode\<lparr>op := ETO_INCOMP\<rparr>], Some (length h))
     else
       (case createNodes RPN of
          Inl e \<Rightarrow> Inl e
        | Inr ns \<Rightarrow>
           (let RPN_Nodes = [length h ..< length h + length ns] in
            case setArgs (h @ ns) RPN_Nodes of
              Inl e \<Rightarrow> Inl e
            | Inr h1 \<Rightarrow>
               (case makeTree h1 RPN_Nodes [] False of
                  Inl h2 \<Rightarrow> Inr (h2, None)
                | Inr (h2, stack, seen) \<Rightarrow>
                   (case stack of
                      [] \<Rightarrow> Inl EmptyStackTop
                    | root # _ \<Rightarrow> Inr (h2, Some root))))))"

subsection \<open>Host-side values of a kernel invocation\<close>

datatype BlockSizeType = AXIS_TYPE_BDIMX | AXIS_TYPE_BDIMY | AXIS_TYPE_BDIMZ | AXIS_TYPE_NONE

datatype GridSizeType = AXIS_TYPE_GDIMX | AXIS_TYPE_GDIMY | AXIS_TYPE_GDIMZ | AXIS_TYPE_GNONE

text \<open>An \<open>llvm::Value*\<close>, as far as this pass looks at it. An integer value has
  a type (\<open>i32\<close> or \<open>i64\<close>) and, in the run under consideration, a content.
  \<open>ConstantInt\<close> is a compile-time constant; \<open>HostValue\<close> is a non-constant
  integer value of the host program, named by a number; \<open>Emitted\<close> is the result
  of an instruction that the pass inserts; \<open>NonInteger\<close> is any other value
  (a pointer, a double).\<close>

datatype IntVal = I32 "32 word" | I64 "64 word"

datatype Value = ConstantInt IntVal | HostValue nat IntVal | Emitted IntVal | NonInteger nat

text \<open>\<open>ConstantInt::getSExtValue\<close>: the constant, sign-extended to 64 bits.\<close>

fun getSExtValue :: "IntVal \<Rightarrow> 64 word" where
  "getSExtValue (I32 w) = scast w"
| "getSExtValue (I64 w) = w"

text \<open>The instructions of the host program, as far as \<open>getExpressionTree\<close> and
  \<open>evaluateRPNForIter0\<close> tell them apart, each with the operands they read.\<close>

datatype Opcode = Mul | SDiv | UDiv | Sub | Add | LShr | OtherOpcode

datatype Instruction =
    LoadInst Value
  | StoreInst Value
  | GetElementPtrInst "Value list"
  | PHINode "Value list"
  | BinaryOperator Opcode "Value list"
  | OtherInstruction "Value list"

text \<open>The global maps the evaluators read, restricted to one call site \<open>CI\<close> and
  to the kernel it launches. A \<open>std::map\<close> is a partial map; \<open>operator[]\<close> on an
  absent key yields the value-initialised entry (0, a null pointer, an empty
  vector). \<open>instructions\<close> tells which values are instructions of the host
  program (\<open>dyn_cast<Instruction>\<close>).\<close>

record Invocation =
  KernelInvocationToBlockSizeMap :: "BlockSizeType \<rightharpoonup> 32 word"
  KernelInvocationToGridSizeMap :: "GridSizeType \<rightharpoonup> 32 word"
  KernelInvocationToGridSizeValueMap :: "GridSizeType \<rightharpoonup> Value"
  KernelInvocationToArgNumberToConstantMap :: "32 word \<rightharpoonup> Value"
  KernelInvocationToArgNumberToActualArgMap :: "32 word \<rightharpoonup> Value"
  FormalArgumentToActualArgumentMap :: "Value \<rightharpoonup> Value list"
  LoopIDToBoundsExprMapIn :: "32 word \<rightharpoonup> nat"
  LoopIDToBoundsExprMapFin :: "32 word \<rightharpoonup> nat"
  TerminalValues :: "Value list"
  PointerOpToOriginalConstant :: "Value \<rightharpoonup> 32 word"
  instructions :: "Value \<rightharpoonup> Instruction"

text \<open>All the maps as they are when the pass starts: empty.\<close>

definition initialInvocation :: Invocation where
  "initialInvocation =
    \<lparr>KernelInvocationToBlockSizeMap = Map.empty,
     KernelInvocationToGridSizeMap = Map.empty,
     KernelInvocationToGridSizeValueMap = Map.empty,
     KernelInvocationToArgNumberToConstantMap = Map.empty,
     KernelInvocationToArgNumberToActualArgMap = Map.empty,
     FormalArgumentToActualArgumentMap = Map.empty,
     LoopIDToBoundsExprMapIn = Map.empty,
     LoopIDToBoundsExprMapFin = Map.empty,
     TerminalValues = [],
     PointerOpToOriginalConstant = Map.empty,
     instructions = Map.empty\<rparr>"

text \<open>\<open>isPointerChase\<close>: the root is the sentinel of kind \<open>ETO_PC\<close>.\<close>

definition isPointerChase :: "ExprTreeNode \<Rightarrow> bool" where
  "isPointerChase root = (op root = ETO_PC)"

definition lookup0 :: "('k \<rightharpoonup> 32 word) \<Rightarrow> 'k \<Rightarrow> 32 word" where
  "lookup0 m k = (case m k of None \<Rightarrow> 0 | Some v \<Rightarrow> v)"

text \<open>\<open>getActualHostValueForLiterals\<close>; the result type is \<open>unsigned\<close>, so a
  64-bit \<open>value\<close> or \<open>getSExtValue()\<close> is truncated to 32 bits.\<close>

definition getActualHostValueForLiterals :: "Invocation \<Rightarrow> ExprTreeNode \<Rightarrow> error + 32 word" where
  "getActualHostValueForLiterals CI node =
    (if op node = ETO_INTERM then Inr (ucast (val node))
     else if op node = ETO_CONST then
       (case stoi (original_str node) of Inl e \<Rightarrow> Inl e | Inr v \<Rightarrow> Inr (word_of_int v))
     else if op node = ETO_BDIMX then
       Inr (lookup0 (KernelInvocationToBlockSizeMap CI) AXIS_TYPE_BDIMX)
     else if op node = ETO_BDIMY then
       Inr (lookup0 (KernelInvocationToBlockSizeMap CI) AXIS_TYPE_BDIMY)
     else if op node = ETO_BIDX \<or> op node = ETO_BIDY then Inr 1
     else if op node = ETO_ARG then
       (case KernelInvocationToArgNumberToConstantMap CI (arg node) of
          Some ConstArg \<Rightarrow>
            (case ConstArg of ConstantInt c \<Rightarrow> Inr (ucast (getSExtValue c)) | _ \<Rightarrow> Inr 0)
        | None \<Rightarrow>
            (case KernelInvocationToArgNumberToActualArgMap CI (arg node) of
               None \<Rightarrow> Inr 0
             | Some ArgInQ \<Rightarrow>
                 (case FormalArgumentToActualArgumentMap CI ArgInQ of
                    None \<Rightarrow> Inl EmptyVectorIndex
                  | Some [] \<Rightarrow> Inl EmptyVectorIndex
                  | Some (a # _) \<Rightarrow>
                      (case a of ConstantInt c \<Rightarrow> Inr (ucast (getSExtValue c)) | _ \<Rightarrow> Inr 0))))
     else Inr 0)"

subsection \<open>Concrete evaluation\<close>

text \<open>The arithmetic of \<open>operate\<close>, \<open>operateMax\<close> and \<open>operateMin\<close> on
  \<open>unsigned long long\<close>: \<open>res\<close> starts as 1 and is overwritten for \<open>SHL\<close>,
  \<open>MUL\<close>, \<open>ADD\<close> and \<open>OR\<close>. A shift by 64 or more is undefined in C++.\<close>

definition operate_res :: "ExprTreeOp \<Rightarrow> 64 word \<Rightarrow> 64 word \<Rightarrow> error + 64 word" where
  "operate_res k v1 v2 =
    (if k = ETO_SHL then
       (if unat v2 < 64 then Inr (push_bit (unat v2) v1) else Inl ShiftTooLarge)
     else if k = ETO_MUL then Inr (v1 * v2)
     else if k = ETO_ADD then Inr (v1 + v2)
     else if k = ETO_OR then Inr (v1 + v2)
     else Inr 1)"

text \<open>\<open>operate\<close>: the result is a fresh node of kind \<open>ETO_INTERM\<close> holding
  \<open>res\<close>; the function returns the store and the pointer to it.\<close>

definition operate :: "Invocation \<Rightarrow> heap \<Rightarrow> nat \<Rightarrow> nat \<Rightarrow> nat \<Rightarrow> error + (heap \<times> nat)" where
  "operate CI h operation op1 op2 =
    (case getActualHostValueForLiterals CI (h ! op1) of
       Inl e \<Rightarrow> Inl e
     | Inr v1 \<Rightarrow>
        (case getActualHostValueForLiterals CI (h ! op2) of
           Inl e \<Rightarrow> Inl e
         | Inr v2 \<Rightarrow>
            (case operate_res (op (h ! operation)) (ucast v1) (ucast v2) of
               Inl e \<Rightarrow> Inl e
             | Inr res \<Rightarrow>
                Inr (h @ [new_ExprTreeNode\<lparr>op := ETO_INTERM, val := res\<rparr>], length h))))"

text \<open>The loop of \<open>evaluateRPN\<close> over the token pointers; the stack holds node
  pointers, top first. \<open>top()\<close> of an empty stack and the use of the
  uninitialised \<open>result\<close> (operands not both terminal) are undefined behaviour
  in C++ and errors here.\<close>

fun evaluateRPN_loop ::
  "Invocation \<Rightarrow> heap \<Rightarrow> nat list \<Rightarrow> nat list \<Rightarrow> error + (heap \<times> nat list)" where
  "evaluateRPN_loop CI h [] stack = Inr (h, stack)"
| "evaluateRPN_loop CI h (Token # rest) stack =
    (if isOperation (h ! Token) then
       (case stack of
          [] \<Rightarrow> Inl EmptyStackTop
        | op1 # stack1 \<Rightarrow>
           (case stack1 of
              [] \<Rightarrow> Inl EmptyStackTop
            | op2 # stack2 \<Rightarrow>
               (if isTerminal (h ! op1) \<and> isTerminal (h ! op2) then
                  (case operate CI h Token op1 op2 of
                     Inl e \<Rightarrow> Inl e
                   | Inr (h', result) \<Rightarrow>
                      evaluateRPN_loop CI (h'[result := (h' ! result)\<lparr>op := ETO_INTERM\<rparr>])
                        rest (result # stack2))
                else Inl UninitialisedResult)))
     else
       (case getActualHostValueForLiterals CI (h ! Token) of
          Inl e \<Rightarrow> Inl e
        | Inr v \<Rightarrow>
           evaluateRPN_loop CI (h[Token := (h ! Token)\<lparr>val := ucast v\<rparr>]) rest
             (Token # stack)))"

definition evaluateRPN :: "Invocation \<Rightarrow> heap \<Rightarrow> nat list \<Rightarrow> error + (heap \<times> 64 word)" where
  "evaluateRPN CI h RPN =
    (case evaluateRPN_loop CI h RPN [] of
       Inl e \<Rightarrow> Inl e
     | Inr (h', stack) \<Rightarrow>
        (case stack of [] \<Rightarrow> Inl EmptyStackTop | t # _ \<Rightarrow> Inr (h', val (h' ! t))))"

text \<open>The conversion loop of \<open>evaluateExpressionTree\<close>: a depth-first walk with
  an explicit stack (top first) that appends every visited node to \<open>RPN\<close>. On a
  store with a cycle through operation nodes the loop does not end; that is the
  value \<open>None\<close>.\<close>

partial_function (option) toRPN ::
  "heap \<Rightarrow> nat option list \<Rightarrow> nat list \<Rightarrow> (error + nat list) option" where
  "toRPN h Stack RPN =
    (case Stack of
       [] \<Rightarrow> Some (Inr RPN)
     | Current # Stack' \<Rightarrow>
        (case Current of
           None \<Rightarrow> Some (Inl NullDereference)
         | Some c \<Rightarrow>
            (if isOperation (h ! c) then
               toRPN h (children1 (h ! c) # children0 (h ! c) # Stack') (RPN @ [c])
             else toRPN h Stack' (RPN @ [c]))))"

declare toRPN.simps [code]

definition evaluateExpressionTree ::
  "Invocation \<Rightarrow> heap \<Rightarrow> nat option \<Rightarrow> (error + (heap \<times> 64 word)) option" where
  "evaluateExpressionTree CI h root =
    (case toRPN h [root] [] of
       None \<Rightarrow> None
     | Some (Inl e) \<Rightarrow> Some (Inl e)
     | Some (Inr RPN) \<Rightarrow> Some (evaluateRPN CI h (rev RPN)))"

subsection \<open>Evaluation of a host expression at iteration 0\<close>

text \<open>\<open>operate(BinaryOperator*, int, int)\<close>: the operands arrive as \<open>int\<close> (the
  low 32 bits of the popped \<open>long long\<close>), the arithmetic is \<open>int\<close> arithmetic
  (truncating division; overflow, a zero divisor and a shift count outside
  0..31 are undefined), and \<open>res\<close> stays uninitialised for any other opcode.\<close>

definition int_result :: "int \<Rightarrow> error + 64 word" where
  "int_result r =
    (if - (2 ^ 31) \<le> r \<and> r < 2 ^ 31 then Inr (word_of_int r) else Inl SignedOverflow)"

definition trunc_div :: "int \<Rightarrow> int \<Rightarrow> int" where
  "trunc_div a b = sgn a * sgn b * (\<bar>a\<bar> div \<bar>b\<bar>)"

definition operate_BO :: "Opcode \<Rightarrow> 64 word \<Rightarrow> 64 word \<Rightarrow> error + 64 word" where
  "operate_BO opc op1 op2 =
    (let v1 = sint (ucast op1 :: 32 word); v2 = sint (ucast op2 :: 32 word) in
     if opc = Mul then int_result (v1 * v2)
     else if opc = SDiv \<or> opc = UDiv then
       (if v1 = 0 then Inl DivideByZero else int_result (trunc_div v2 v1))
     else if opc = Sub then int_result (v2 - v1)
     else if opc = Add then int_result (v1 + v2)
     else if opc = LShr then
       (if 0 \<le> v1 \<and> v1 < 32 then Inr (word_of_int (v2 div 2 ^ nat v1))
        else Inl ShiftTooLarge)
     else Inl UninitialisedResult)"

text \<open>The loop of \<open>evaluateRPNForIter0\<close> over the reversed vector, with the stack
  of \<open>long long\<close> (top first) and \<open>phiseen\<close>.\<close>

fun evaluateRPNForIter0_loop ::
  "Invocation \<Rightarrow> Value list \<Rightarrow> 64 word list \<Rightarrow> bool \<Rightarrow> error + 64 word list" where
  "evaluateRPNForIter0_loop CI [] stack phiseen = Inr stack"
| "evaluateRPNForIter0_loop CI (Token # rest) stack phiseen =
    (if Token \<in> set (TerminalValues CI) then
       (case FormalArgumentToActualArgumentMap CI Token of
          None \<Rightarrow> Inl EmptyVectorIndex
        | Some [] \<Rightarrow> Inl EmptyVectorIndex
        | Some (ActualArg # _) \<Rightarrow>
           (case ActualArg of
              ConstantInt c \<Rightarrow> evaluateRPNForIter0_loop CI rest (getSExtValue c # stack) phiseen
            | _ \<Rightarrow>
               (case PointerOpToOriginalConstant CI ActualArg of
                  Some k \<Rightarrow> evaluateRPNForIter0_loop CI rest (ucast k # stack) phiseen
                | None \<Rightarrow> evaluateRPNForIter0_loop CI rest stack phiseen)))
     else
       (case Token of
          ConstantInt c \<Rightarrow> evaluateRPNForIter0_loop CI rest (getSExtValue c # stack) phiseen
        | _ \<Rightarrow>
           (case instructions CI Token of
              Some (PHINode _) \<Rightarrow>
                (if phiseen = False then evaluateRPNForIter0_loop CI rest (0 # stack) True
                 else
                   (case stack of
                      [] \<Rightarrow> Inl EmptyStackTop
                    | op1 # stack1 \<Rightarrow>
                       (case stack1 of
                          [] \<Rightarrow> Inl EmptyStackTop
                        | op2 # stack2 \<Rightarrow>
                           evaluateRPNForIter0_loop CI rest
                             ((if op1 <s op2 then op1 else op2) # stack2) phiseen)))
            | Some (BinaryOperator opc _) \<Rightarrow>
                (case stack of
                   [] \<Rightarrow> Inl EmptyStackTop
                 | op1 # stack1 \<Rightarrow>
                    (case stack1 of
                       [] \<Rightarrow> Inl EmptyStackTop
                     | op2 # stack2 \<Rightarrow>
                        (case operate_BO opc op1 op2 of
                           Inl e \<Rightarrow> Inl e
                         | Inr result \<Rightarrow>
                            evaluateRPNForIter0_loop CI rest (result # stack2) phiseen)))
            | _ \<Rightarrow> evaluateRPNForIter0_loop CI rest stack phiseen)))"

definition evaluateRPNForIter0 :: "Invocation \<Rightarrow> Value list \<Rightarrow> error + 64 word" where
  "evaluateRPNForIter0 CI RPN =
    (case evaluateRPNForIter0_loop CI (rev RPN) [] False of
       Inl e \<Rightarrow> Inl e
     | Inr stack \<Rightarrow> (case stack of [] \<Rightarrow> Inl EmptyStackTop | t # _ \<Rightarrow> Inr t))"

text \<open>The loop of \<open>getExpressionTree\<close>: a walk over the operands of the host
  instructions with an explicit stack (top first) and the two visited sets.\<close>

partial_function (option) getExpressionTree_loop ::
  "Invocation \<Rightarrow> Value list \<Rightarrow> Value list \<Rightarrow> Value list \<Rightarrow> Value list \<Rightarrow> Value list option" where
  "getExpressionTree_loop CI Stack RPN Visited PhiNodesVisited =
    (case Stack of
       [] \<Rightarrow> Some RPN
     | Current # Stack' \<Rightarrow>
        (if Current \<in> set PhiNodesVisited then
           getExpressionTree_loop CI Stack' (RPN @ [Current]) Visited PhiNodesVisited
         else if Current \<in> set Visited then
           getExpressionTree_loop CI Stack' RPN Visited PhiNodesVisited
         else if Current \<in> set (TerminalValues CI) then
           getExpressionTree_loop CI Stack' (RPN @ [Current]) Visited PhiNodesVisited
         else
           (case instructions CI Current of
              None \<Rightarrow> getExpressionTree_loop CI Stack' (RPN @ [Current]) Visited PhiNodesVisited
            | Some In \<Rightarrow>
               (case In of
                  LoadInst ptr \<Rightarrow>
                    getExpressionTree_loop CI (ptr # Stack') (RPN @ [Current])
                      (Current # Visited) PhiNodesVisited
                | StoreInst ptr \<Rightarrow>
                    getExpressionTree_loop CI (ptr # Stack') (RPN @ [Current])
                      (Current # Visited) PhiNodesVisited
                | GetElementPtrInst operands \<Rightarrow>
                    getExpressionTree_loop CI (rev (drop 1 operands) @ Stack') (RPN @ [Current])
                      (Current # Visited) PhiNodesVisited
                | PHINode operands \<Rightarrow>
                    getExpressionTree_loop CI (rev operands @ Stack') (RPN @ [Current])
                      (Current # Visited) (Current # PhiNodesVisited)
                | BinaryOperator opc operands \<Rightarrow>
                    getExpressionTree_loop CI (rev operands @ Stack') (RPN @ [Current])
                      (Current # Visited) PhiNodesVisited
                | OtherInstruction operands \<Rightarrow>
                    getExpressionTree_loop CI (rev operands @ Stack') (RPN @ [Current])
                      (Current # Visited) PhiNodesVisited))))"

declare getExpressionTree_loop.simps [code]

definition getExpressionTree :: "Invocation \<Rightarrow> Value \<Rightarrow> Value list option" where
  "getExpressionTree CI V = getExpressionTree_loop CI [V] [] [] []"

subsection \<open>Interval evaluation: bound-specific values of terminals\<close>

text \<open>The grid dimension along an axis as \<open>getMaxValueForLiterals\<close> resolves it
  for a block-index terminal: from the grid-size value of the call site when there
  is one (\<open>getExpressionTree\<close>, then \<open>evaluateRPNForIter0\<close>, returned as it is),
  otherwise from the constant grid size, minus one.\<close>

definition maxBlockIndex :: "Invocation \<Rightarrow> GridSizeType \<Rightarrow> (error + 32 word) option" where
  "maxBlockIndex CI axis =
    (case KernelInvocationToGridSizeValueMap CI axis of
       Some GridValueSize \<Rightarrow>
         (case getExpressionTree CI GridValueSize of
            None \<Rightarrow> None
          | Some RRPN \<Rightarrow>
             (case evaluateRPNForIter0 CI RRPN of
                Inl e \<Rightarrow> Some (Inl e)
              | Inr griddim \<Rightarrow> Some (Inr (ucast griddim))))
     | None \<Rightarrow> Some (Inr (lookup0 (KernelInvocationToGridSizeMap CI) axis - 1)))"

text \<open>\<open>getMaxValueForLiterals\<close> and \<open>getMinValueForLiterals\<close>. The bound
  expressions of the loop are looked up for the kernel that \<open>CI\<close> launches; the
  result type is \<open>unsigned\<close>. Evaluating a bound expression may write to the
  store, which is returned.\<close>

definition getMaxValueForLiterals ::
  "Invocation \<Rightarrow> heap \<Rightarrow> nat \<Rightarrow> 32 word \<Rightarrow> 32 word \<Rightarrow> (error + (heap \<times> 32 word)) option" where
  "getMaxValueForLiterals CI h node LoopArg loopid =
    (if op (h ! node) = ETO_ARG then
       (if arg (h ! node) = LoopArg then Some (Inr (h, 0))
        else Some (map_sum id (Pair h) (getActualHostValueForLiterals CI (h ! node))))
     else if op (h ! node) = ETO_PHI_TERM then
       (if loopid = 0 then Some (Inr (h, 1))
        else
          (case evaluateExpressionTree CI h (LoopIDToBoundsExprMapFin CI loopid) of
             None \<Rightarrow> None
           | Some (Inl e) \<Rightarrow> Some (Inl e)
           | Some (Inr (h', v)) \<Rightarrow> Some (Inr (h', ucast v))))
     else if op (h ! node) = ETO_BIDX \<or> op (h ! node) = ETO_BIDY
          \<or> op (h ! node) = ETO_TIDX \<or> op (h ! node) = ETO_TIDY then
       (if op (h ! node) = ETO_TIDX then
          Some (Inr (h, lookup0 (KernelInvocationToBlockSizeMap CI) AXIS_TYPE_BDIMX - 1))
        else if op (h ! node) = ETO_TIDY then
          Some (Inr (h, lookup0 (KernelInvocationToBlockSizeMap CI) AXIS_TYPE_BDIMY - 1))
        else if op (h ! node) = ETO_BIDX then
          map_option (map_sum id (Pair h)) (maxBlockIndex CI AXIS_TYPE_GDIMX)
        else map_option (map_sum id (Pair h)) (maxBlockIndex CI AXIS_TYPE_GDIMY))
     else Some (map_sum id (Pair h) (getActualHostValueForLiterals CI (h ! node))))"

definition getMinValueForLiterals ::
  "Invocation \<Rightarrow> heap \<Rightarrow> nat \<Rightarrow> 32 word \<Rightarrow> 32 word \<Rightarrow> (error + (heap \<times> 32 word)) option" where
  "getMinValueForLiterals CI h node LoopArg loopid =
    (if op (h ! node) = ETO_ARG then
       (if arg (h ! node) = LoopArg then Some (Inr (h, 0))
        else Some (map_sum id (Pair h) (getActualHostValueForLiterals CI (h ! node))))
     else if op (h ! node) = ETO_PHI_TERM then
       (if loopid = 0 then Some (Inr (h, 1))
        else
          (case evaluateExpressionTree CI h (LoopIDToBoundsExprMapIn CI loopid) of
             None \<Rightarrow> None
           | Some (Inl e) \<Rightarrow> Some (Inl e)
           | Some (Inr (h', v)) \<Rightarrow> Some (Inr (h', ucast v))))
     else if op (h ! node) = ETO_BIDX \<or> op (h ! node) = ETO_BIDY
          \<or> op (h ! node) = ETO_TIDX \<or> op (h ! node) = ETO_TIDY then
       Some (Inr (h, 0))
     else Some (map_sum id (Pair h) (getActualHostValueForLiterals CI (h ! node))))"

subsection \<open>Interval evaluation: the reductions\<close>

text \<open>\<open>operateMax\<close> and \<open>operateMin\<close> compute as \<open>operate\<close> does and reduce a
  \<open>phi\<close> to the larger, respectively the smaller, operand. The result node is
  allocated first, then the operands are resolved.\<close>

definition operateMax_res :: "ExprTreeOp \<Rightarrow> 64 word \<Rightarrow> 64 word \<Rightarrow> error + 64 word" where
  "operateMax_res k v1 v2 =
    (if k = ETO_PHI then Inr (if v1 < v2 then v2 else v1) else operate_res k v1 v2)"

definition operateMin_res :: "ExprTreeOp \<Rightarrow> 64 word \<Rightarrow> 64 word \<Rightarrow> error + 64 word" where
  "operateMin_res k v1 v2 =
    (if k = ETO_PHI then Inr (if v1 < v2 then v1 else v2) else operate_res k v1 v2)"

definition operateMax ::
  "Invocation \<Rightarrow> heap \<Rightarrow> nat \<Rightarrow> nat \<Rightarrow> nat \<Rightarrow> 32 word \<Rightarrow> 32 word
     \<Rightarrow> (error + (heap \<times> nat)) option" where
  "operateMax CI h operation op1 op2 LoopArg loopid =
    (let result = length h; h0 = h @ [new_ExprTreeNode] in
     case getMaxValueForLiterals CI h0 op1 LoopArg loopid of
       None \<Rightarrow> None
     | Some (Inl e) \<Rightarrow> Some (Inl e)
     | Some (Inr (h1, v1)) \<Rightarrow>
        (case getMaxValueForLiterals CI h1 op2 LoopArg loopid of
           None \<Rightarrow> None
         | Some (Inl e) \<Rightarrow> Some (Inl e)
         | Some (Inr (h2, v2)) \<Rightarrow>
            (case operateMax_res (op (h2 ! operation)) (ucast v1) (ucast v2) of
               Inl e \<Rightarrow> Some (Inl e)
             | Inr res \<Rightarrow>
                Some (Inr (h2[result := (h2 ! result)\<lparr>op := ETO_INTERM, val := res\<rparr>], result)))))"

definition operateMin ::
  "Invocation \<Rightarrow> heap \<Rightarrow> nat \<Rightarrow> nat \<Rightarrow> nat \<Rightarrow> 32 word \<Rightarrow> 32 word
     \<Rightarrow> (error + (heap \<times> nat)) option" where
  "operateMin CI h operation op1 op2 LoopArg loopid =
    (let result = length h; h0 = h @ [new_ExprTreeNode] in
     case getMinValueForLiterals CI h0 op1 LoopArg loopid of
       None \<Rightarrow> None
     | Some (Inl e) \<Rightarrow> Some (Inl e)
     | Some (Inr (h1, v1)) \<Rightarrow>
        (case getMinValueForLiterals CI h1 op2 LoopArg loopid of
           None \<Rightarrow> None
         | Some (Inl e) \<Rightarrow> Some (Inl e)
         | Some (Inr (h2, v2)) \<Rightarrow>
            (case operateMin_res (op (h2 ! operation)) (ucast v1) (ucast v2) of
               Inl e \<Rightarrow> Some (Inl e)
             | Inr res \<Rightarrow>
                Some (Inr (h2[result := (h2 ! result)\<lparr>op := ETO_INTERM, val := res\<rparr>], result)))))"

text \<open>The loops of \<open>evaluateRPNforMax\<close> and \<open>evaluateRPNforMin\<close>.\<close>

fun evaluateRPNforMax_loop ::
  "Invocation \<Rightarrow> heap \<Rightarrow> nat list \<Rightarrow> nat list \<Rightarrow> 32 word \<Rightarrow> 32 word
     \<Rightarrow> (error + (heap \<times> nat list)) option" where
  "evaluateRPNforMax_loop CI h [] stack LoopArg loopid = Some (Inr (h, stack))"
| "evaluateRPNforMax_loop CI h (Token # rest) stack LoopArg loopid =
    (if isOperation (h ! Token) then
       (case stack of
          [] \<Rightarrow> Some (Inl EmptyStackTop)
        | op1 # stack1 \<Rightarrow>
           (case stack1 of
              [] \<Rightarrow> Some (Inl EmptyStackTop)
            | op2 # stack2 \<Rightarrow>
               (if isTerminal (h ! op1) \<and> isTerminal (h ! op2) then
                  (case operateMax CI h Token op1 op2 LoopArg loopid of
                     None \<Rightarrow> None
                   | Some (Inl e) \<Rightarrow> Some (Inl e)
                   | Some (Inr (h', result)) \<Rightarrow>
                      evaluateRPNforMax_loop CI (h'[result := (h' ! result)\<lparr>op := ETO_INTERM\<rparr>])
                        rest (result # stack2) LoopArg loopid)
                else Some (Inl UninitialisedResult))))
     else
       (case getMaxValueForLiterals CI h Token LoopArg loopid of
          None \<Rightarrow> None
        | Some (Inl e) \<Rightarrow> Some (Inl e)
        | Some (Inr (h', v)) \<Rightarrow>
           evaluateRPNforMax_loop CI (h'[Token := (h' ! Token)\<lparr>val := ucast v\<rparr>]) rest
             (Token # stack) LoopArg loopid))"

fun evaluateRPNforMin_loop ::
  "Invocation \<Rightarrow> heap \<Rightarrow> nat list \<Rightarrow> nat list \<Rightarrow> 32 word \<Rightarrow> 32 word
     \<Rightarrow> (error + (heap \<times> nat list)) option" where
  "evaluateRPNforMin_loop CI h [] stack LoopArg loopid = Some (Inr (h, stack))"
| "evaluateRPNforMin_loop CI h (Token # rest) stack LoopArg loopid =
    (if isOperation (h ! Token) then
       (case stack of
          [] \<Rightarrow> Some (Inl EmptyStackTop)
        | op1 # stack1 \<Rightarrow>
           (case stack1 of
              [] \<Rightarrow> Some (Inl EmptyStackTop)
            | op2 # stack2 \<Rightarrow>
               (if isTerminal (h ! op1) \<and> isTerminal (h ! op2) then
                  (case operateMin CI h Token op1 op2 LoopArg loopid of
                     None \<Rightarrow> None
                   | Some (Inl e) \<Rightarrow> Some (Inl e)
                   | Some (Inr (h', result)) \<Rightarrow>
                      evaluateRPNforMin_loop CI (h'[result := (h' ! result)\<lparr>op := ETO_INTERM\<rparr>])
                        rest (result # stack2) LoopArg loopid)
                else Some (Inl UninitialisedResult))))
     else
       (case getMinValueForLiterals CI h Token LoopArg loopid of
          None \<Rightarrow> None
        | Some (Inl e) \<Rightarrow> Some (Inl e)
        | Some (Inr (h', v)) \<Rightarrow>
           evaluateRPNforMin_loop CI (h'[Token := (h' ! Token)\<lparr>val := ucast v\<rparr>]) rest
             (Token # stack) LoopArg loopid))"

definition evaluateRPNforMax ::
  "Invocation \<Rightarrow> heap \<Rightarrow> nat list \<Rightarrow> 32 word \<Rightarrow> 32 word \<Rightarrow> (error + (heap \<times> 64 word)) option" where
  "evaluateRPNforMax CI h RPN LoopArg loopid =
    (case evaluateRPNforMax_loop CI h RPN [] LoopArg loopid of
       None \<Rightarrow> None
     | Some (Inl e) \<Rightarrow> Some (Inl e)
     | Some (Inr (h', stack)) \<Rightarrow>
        (case stack of [] \<Rightarrow> Some (Inl EmptyStackTop) | t # _ \<Rightarrow> Some (Inr (h', val (h' ! t)))))"

definition evaluateRPNforMin ::
  "Invocation \<Rightarrow> heap \<Rightarrow> nat list \<Rightarrow> 32 word \<Rightarrow> 32 word \<Rightarrow> (error + (heap \<times> 64 word)) option" where
  "evaluateRPNforMin CI h RPN LoopArg loopid =
    (case evaluateRPNforMin_loop CI h RPN [] LoopArg loopid of
       None \<Rightarrow> None
     | Some (Inl e) \<Rightarrow> Some (Inl e)
     | Some (Inr (h', stack)) \<Rightarrow>
        (case stack of [] \<Rightarrow> Some (Inl EmptyStackTop) | t # _ \<Rightarrow> Some (Inr (h', val (h' ! t)))))"

subsection \<open>The coefficient extractor\<close>












subsection \<open>The n-ary tree builder and the indirection test\<close>

text \<open>The loop of \<open>createExpressionTreeAdvanced\<close> over the parenthesised token
  stream. After \<open>(\<close> the iterator is advanced and the next token names the
  node; \<open>)\<close> pops the stack; any other token is skipped. The state is the store,
  \<open>root\<close>, the stack (top first) and \<open>term_count\<close>. The node is allocated before
  \<open>term_count\<close> is tested, so the \<open>break\<close> leaves it in the store, unlinked.\<close>

fun createExpressionTreeAdvanced_loop ::
  "heapAdvanced \<Rightarrow> string list \<Rightarrow> nat option \<Rightarrow> nat list \<Rightarrow> nat
     \<Rightarrow> error + (heapAdvanced \<times> nat option)" where
  "createExpressionTreeAdvanced_loop h [] root stack term_count = Inr (h, root)"
| "createExpressionTreeAdvanced_loop h (str # rest) root stack term_count =
    (if str = ''('' then
       (case rest of
          [] \<Rightarrow> Inl PastTheEnd
        | name # rest' \<Rightarrow>
           (case getExprTreeOp name of
              Inl e \<Rightarrow> Inl e
            | Inr k \<Rightarrow>
               (let node0 = new_ExprTreeNodeAdvanced\<lparr>op := k, original_str := name, parent := None\<rparr>;
                    p = length h
                in if term_count + 1 > 100 then Inr (h @ [node0], root)
                   else
                     (case (if k = ETO_ARG then getExprTreeNodeArg name else Inr (arg node0)) of
                        Inl e \<Rightarrow> Inl e
                      | Inr a1 \<Rightarrow>
                         (case (if k = ETO_PHI then getExprTreePhiArg name else Inr a1) of
                            Inl e \<Rightarrow> Inl e
                          | Inr a2 \<Rightarrow>
                             (let node = node0\<lparr>arg := a2\<rparr> in
                              if root = None then
                                createExpressionTreeAdvanced_loop (h @ [node]) rest' (Some p)
                                  (p # stack) (term_count + 1)
                              else
                                (case stack of
                                   [] \<Rightarrow> Inl EmptyStackTop
                                 | t # _ \<Rightarrow>
                                    createExpressionTreeAdvanced_loop
                                      ((h @ [node\<lparr>parent := Some t\<rparr>])
                                         [t := (h ! t)\<lparr>children := children (h ! t) @ [p]\<rparr>])
                                      rest' root (p # stack) (term_count + 1))))))))
     else if str = '')'' then
       (case stack of
          [] \<Rightarrow> Inl EmptyStackTop
        | _ # stack' \<Rightarrow> createExpressionTreeAdvanced_loop h rest root stack' term_count)
     else createExpressionTreeAdvanced_loop h rest root stack term_count)"

definition createExpressionTreeAdvanced ::
  "heapAdvanced \<Rightarrow> string list \<Rightarrow> error + (heapAdvanced \<times> nat option)" where
  "createExpressionTreeAdvanced h serializedTree =
     createExpressionTreeAdvanced_loop h serializedTree None [] 0"

text \<open>The loop of \<open>isIndirectAccess\<close>: a depth-first walk with an explicit stack
  (top first; the children are pushed in order, so the last child is on top).
  The test inside the loop reads \<open>root->op\<close>, as the source does. A store with a
  cycle makes the loop run forever: the value \<open>None\<close>.\<close>

partial_function (option) isIndirectAccess_loop ::
  "heapAdvanced \<Rightarrow> nat \<Rightarrow> nat list \<Rightarrow> bool \<Rightarrow> bool option" where
  "isIndirectAccess_loop h root Stack found_load =
    (case Stack of
       [] \<Rightarrow> Some False
     | Current # Stack' \<Rightarrow>
        (if op (h ! root) = ETO_LOAD then
           (if found_load = True then Some True
            else isIndirectAccess_loop h root (rev (children (h ! Current)) @ Stack') True)
         else isIndirectAccess_loop h root (rev (children (h ! Current)) @ Stack') found_load))"

declare isIndirectAccess_loop.simps [code]

definition isIndirectAccess :: "heapAdvanced \<Rightarrow> nat option \<Rightarrow> bool option" where
  "isIndirectAccess h root =
    (case root of None \<Rightarrow> Some False | Some r \<Rightarrow> isIndirectAccess_loop h r [r] False)"

subsection \<open>Values computed by the inserted code\<close>

text \<open>The functions below insert instructions before \<open>Location\<close>. An inserted
  instruction is modelled by the value it computes when the host program runs:
  an \<open>Emitted\<close> value of the instruction's type. Undefined results of the
  inserted instructions (a zero divisor, an oversized shift) are errors.\<close>

fun intValOf :: "Value \<Rightarrow> IntVal option" where
  "intValOf (ConstantInt v) = Some v"
| "intValOf (HostValue n v) = Some v"
| "intValOf (Emitted v) = Some v"
| "intValOf (NonInteger n) = None"

definition isIntegerTy32 :: "Value \<Rightarrow> bool" where
  "isIntegerTy32 V = (case intValOf V of Some (I32 w) \<Rightarrow> True | _ \<Rightarrow> False)"

definition isIntegerTy :: "Value \<Rightarrow> bool" where
  "isIntegerTy V = (intValOf V \<noteq> None)"

definition sameType :: "Value \<Rightarrow> Value \<Rightarrow> bool" where
  "sameType A B =
    (case (intValOf A, intValOf B) of
       (Some (I32 a), Some (I32 b)) \<Rightarrow> True
     | (Some (I64 a), Some (I64 b)) \<Rightarrow> True
     | _ \<Rightarrow> False)"

text \<open>\<open>insertConstantNode\<close>, by overload: from a node (\<open>getInt32(Node->value)\<close>),
  from an \<open>unsigned\<close>, from an \<open>unsigned long long\<close>.\<close>

definition insertConstantNode_node :: "ExprTreeNode \<Rightarrow> Value" where
  "insertConstantNode_node Node = ConstantInt (I32 (ucast (val Node)))"

definition insertConstantNode_unsigned :: "32 word \<Rightarrow> Value" where
  "insertConstantNode_unsigned v = ConstantInt (I32 v)"

definition insertConstantNode_ull :: "64 word \<Rightarrow> Value" where
  "insertConstantNode_ull v = ConstantInt (I64 v)"

text \<open>\<open>insertCodeToCastInt32ToInt64\<close>: asserts an \<open>i32\<close> operand and sign-extends
  it (\<open>CreateIntCast\<close> with \<open>isSigned = true\<close>).\<close>

definition insertCodeToCastInt32ToInt64 :: "Value \<Rightarrow> error + Value" where
  "insertCodeToCastInt32ToInt64 V =
    (case intValOf V of
       Some (I32 w) \<Rightarrow> Inr (Emitted (I64 (scast w)))
     | _ \<Rightarrow> Inl AssertionFailed)"


text \<open>The instruction that \<open>insertComputationNode\<close> creates for an operator kind,
  on operands of one width: \<open>CreateAdd\<close>, \<open>CreateSub\<close>, \<open>CreateAnd\<close>,
  \<open>CreateOr\<close>, \<open>CreateMul\<close>, \<open>CreateShl(Src2, Src1)\<close>, \<open>CreateUDiv\<close> (for
  \<open>ETO_DIV\<close> and \<open>ETO_UDIV\<close>), \<open>CreateSDiv\<close>; for any other kind the function
  returns \<open>nullptr\<close> (\<open>None\<close>).\<close>

definition computation :: "ExprTreeOp \<Rightarrow> 'a::len word \<Rightarrow> 'a word \<Rightarrow> error + 'a word option" where
  "computation Op Src1 Src2 =
    (if Op = ETO_ADD then Inr (Some (Src1 + Src2))
     else if Op = ETO_SUB then Inr (Some (Src1 - Src2))
     else if Op = ETO_AND then Inr (Some (Src1 AND Src2))
     else if Op = ETO_OR then Inr (Some (Src1 OR Src2))
     else if Op = ETO_MUL then Inr (Some (Src1 * Src2))
     else if Op = ETO_SHL then
       (if unat Src1 < LENGTH('a) then Inr (Some (push_bit (unat Src1) Src2))
        else Inl ShiftTooLarge)
     else if Op = ETO_DIV \<or> Op = ETO_UDIV then
       (if Src2 = 0 then Inl DivideByZero else Inr (Some (Src1 div Src2)))
     else if Op = ETO_SDIV then
       (if Src2 = 0 then Inl DivideByZero
        else if sint Src1 = - (2 ^ (LENGTH('a) - 1)) \<and> sint Src2 = - 1 then Inl SignedOverflow
        else Inr (Some (word_of_int (trunc_div (sint Src1) (sint Src2)))))
     else Inr None)"

text \<open>\<open>insertComputationNode\<close>: both operands must be there; operands of
  different integer types are promoted to \<open>i64\<close>; then the types must agree.\<close>

definition insertComputationNode ::
  "Value option \<Rightarrow> Value option \<Rightarrow> ExprTreeOp \<Rightarrow> error + Value option" where
  "insertComputationNode Src1 Src2 Op =
    (case Src1 of
       None \<Rightarrow> Inl AssertionFailed
     | Some s1 \<Rightarrow>
        (case Src2 of
           None \<Rightarrow> Inl AssertionFailed
         | Some s2 \<Rightarrow>
            (case (if \<not> sameType s1 s2 \<and> isIntegerTy s1 \<and> isIntegerTy s2 then
                     (case (if isIntegerTy32 s1 then insertCodeToCastInt32ToInt64 s1 else Inr s1) of
                        Inl e \<Rightarrow> Inl e
                      | Inr c1 \<Rightarrow>
                         (case (if isIntegerTy32 s2 then insertCodeToCastInt32ToInt64 s2
                                else Inr s2) of
                            Inl e \<Rightarrow> Inl e
                          | Inr c2 \<Rightarrow> Inr (c1, c2)))
                   else Inr (s1, s2)) of
               Inl e \<Rightarrow> Inl e
             | Inr (c1, c2) \<Rightarrow>
                (case (intValOf c1, intValOf c2) of
                   (Some (I32 a), Some (I32 b)) \<Rightarrow>
                     map_sum id (map_option (\<lambda>w. Emitted (I32 w))) (computation Op a b)
                 | (Some (I64 a), Some (I64 b)) \<Rightarrow>
                     map_sum id (map_option (\<lambda>w. Emitted (I64 w))) (computation Op a b)
                 | _ \<Rightarrow> Inl AssertionFailed))))"

subsection \<open>Loop accounting\<close>

text \<open>The splitting loop of \<open>partiallyEvaluatedLoopIters\<close>: the markers \<open>IN\<close>,
  \<open>FIN\<close> and \<open>STEP\<close> select the list that the following tokens go to.\<close>

fun splitTokens ::
  "string list \<Rightarrow> nat \<Rightarrow> string list \<times> string list \<times> string list
     \<Rightarrow> string list \<times> string list \<times> string list" where
  "splitTokens [] currentSplit S = S"
| "splitTokens (Token # rest) currentSplit (S0, S1, S2) =
    (if Token = ''IN'' then splitTokens rest 0 (S0, S1, S2)
     else if Token = ''FIN'' then splitTokens rest 1 (S0, S1, S2)
     else if Token = ''STEP'' then splitTokens rest 2 (S0, S1, S2)
     else if currentSplit = 0 then splitTokens rest currentSplit (S0 @ [Token], S1, S2)
     else if currentSplit = 1 then splitTokens rest currentSplit (S0, S1 @ [Token], S2)
     else splitTokens rest currentSplit (S0, S1, S2 @ [Token]))"

definition doOperationOnNodes ::
  "heap \<Rightarrow> ExprTreeOp \<Rightarrow> nat option \<Rightarrow> nat option \<Rightarrow> heap \<times> nat" where
  "doOperationOnNodes h Op left right =
    (h @ [new_ExprTreeNode\<lparr>op := Op, children0 := left, children1 := right\<rparr>], length h)"

text \<open>\<open>partiallyEvaluatedLoopIters\<close>, for the bounds table of one kernel
  (\<open>LoopIDToLoopBoundsMap[kernelName]\<close>, an association list in key order).\<close>

definition partiallyEvaluatedLoopIters ::
  "(32 word \<times> string list) list \<Rightarrow> heap \<Rightarrow> 32 word \<Rightarrow> error + (heap \<times> nat option)" where
  "partiallyEvaluatedLoopIters kernelLoopToBoundsMap h loopID =
    (if loopID = 0 then Inr (h, None)
     else
       (case map_of kernelLoopToBoundsMap loopID of
          None \<Rightarrow> Inr (h, None)
        | Some LoopBoundsTokens \<Rightarrow>
           (case splitTokens LoopBoundsTokens 0 ([], [], []) of
              (S0, S1, S2) \<Rightarrow>
               (case createExpressionTree h S0 of
                  Inl e \<Rightarrow> Inl e
                | Inr (h1, In) \<Rightarrow>
                   (case createExpressionTree h1 S1 of
                      Inl e \<Rightarrow> Inl e
                    | Inr (h2, Fin) \<Rightarrow>
                       (case createExpressionTree h2 S2 of
                          Inl e \<Rightarrow> Inl e
                        | Inr (h3, Step) \<Rightarrow>
                           (if In = None \<or> Fin = None then Inr (h3, None)
                            else
                              (case doOperationOnNodes h3 ETO_SUB Fin In of
                                 (h4, FinMinusIn) \<Rightarrow>
                                  (case doOperationOnNodes h4 ETO_DIV (Some FinMinusIn) Step of
                                     (h5, FinMinusInDivStep) \<Rightarrow>
                                      Inr (h5, Some FinMinusInDivStep))))))))))"

text \<open>\<open>identifyUnknownsFromExpressionTree\<close>: the map from terminal nodes to the
  values that stand for them (a value may be a null pointer), as an association
  list with one entry per key. On a store with a
  cycle the recursion does not end. The call site and the store, which the
  recursion passes on unchanged, are one argument of the recursive function.\<close>

partial_function (option) identifyUnknowns_rec ::
  "Invocation \<times> heap \<Rightarrow> (nat \<times> Value option) list \<Rightarrow> nat option
     \<Rightarrow> (nat \<times> Value option) list option" where
  "identifyUnknowns_rec C Unknowns node =
    (case node of
       None \<Rightarrow> Some Unknowns
     | Some n \<Rightarrow>
        (if isTerminal (snd C ! n) then
           (if op (snd C ! n) = ETO_ARG then
              Some (AList.update n
                      (KernelInvocationToArgNumberToActualArgMap (fst C) (arg (snd C ! n)))
                      Unknowns)
            else if op (snd C ! n) = ETO_BDIMX then
              Some (AList.update n
                      (Some (insertConstantNode_unsigned
                         (lookup0 (KernelInvocationToBlockSizeMap (fst C)) AXIS_TYPE_BDIMX)))
                      Unknowns)
            else if op (snd C ! n) = ETO_BDIMY then
              Some (AList.update n
                      (Some (insertConstantNode_unsigned
                         (lookup0 (KernelInvocationToBlockSizeMap (fst C)) AXIS_TYPE_BDIMY)))
                      Unknowns)
            else Some Unknowns)
         else
           Option.bind (identifyUnknowns_rec C Unknowns (children0 (snd C ! n)))
             (\<lambda>U1. identifyUnknowns_rec C U1 (children1 (snd C ! n)))))"

declare identifyUnknowns_rec.simps [code]

definition identifyUnknownsFromExpressionTree ::
  "Invocation \<Rightarrow> heap \<Rightarrow> (nat \<times> Value option) list \<Rightarrow> nat option
     \<Rightarrow> (nat \<times> Value option) list option" where
  "identifyUnknownsFromExpressionTree CI h Unknowns node = identifyUnknowns_rec (CI, h) Unknowns node"


text \<open>\<open>insertLoopItersEvaluationCode\<close>: the value of the expression under
  \<open>node\<close>, computed by inserted instructions. A constant node gets its \<open>value\<close>
  field written on the way.\<close>

partial_function (option) insertLoopItersEvaluationCode ::
  "heap \<Rightarrow> (nat \<times> Value option) list \<Rightarrow> nat option \<Rightarrow> (error + (heap \<times> Value option)) option" where
  "insertLoopItersEvaluationCode h Unknowns node =
    (case node of
       None \<Rightarrow> Some (Inr (h, None))
     | Some n \<Rightarrow>
        (if isTerminal (h ! n) then
           (case map_of Unknowns n of
              Some v \<Rightarrow>
                (case v of None \<Rightarrow> Some (Inl NullDereference) | Some x \<Rightarrow> Some (Inr (h, Some x)))
            | None \<Rightarrow>
                (if op (h ! n) = ETO_CONST then
                   (case stoi (original_str (h ! n)) of
                      Inl e \<Rightarrow> Some (Inl e)
                    | Inr k \<Rightarrow>
                       Some (Inr (h[n := (h ! n)\<lparr>val := word_of_int k\<rparr>],
                                  Some (insertConstantNode_node ((h ! n)\<lparr>val := word_of_int k\<rparr>)))))
                 else if op (h ! n) = ETO_BIDX \<or> op (h ! n) = ETO_BIDY
                      \<or> op (h ! n) = ETO_TIDX \<or> op (h ! n) = ETO_TIDY
                      \<or> op (h ! n) = ETO_INCOMP then
                   Some (Inr (h, Some (insertConstantNode_unsigned 0)))
                 else Some (Inl AssertionFailed)))
         else
           Option.bind (insertLoopItersEvaluationCode h Unknowns (children0 (h ! n)))
             (\<lambda>l. case l of
                Inl e \<Rightarrow> Some (Inl e)
              | Inr (h1, left) \<Rightarrow>
                 Option.bind (insertLoopItersEvaluationCode h1 Unknowns (children1 (h1 ! n)))
                   (\<lambda>r. case r of
                      Inl e \<Rightarrow> Some (Inl e)
                    | Inr (h2, right) \<Rightarrow>
                       Some (map_sum id (Pair h2)
                               (insertComputationNode left right (op (h2 ! n))))))))"

declare insertLoopItersEvaluationCode.simps [code]

text \<open>One iteration of the loop of \<open>insertCodeToComputeKernelLoopIterationCount\<close>,
  for the loop \<open>LoopID\<close>. The state is the store, \<open>LoopIDToNumIterationsMap\<close> and
  \<open>LoopIDToIncompMap\<close>. The debugging calls \<open>dump()\<close> dereference every unknown
  and the result, and \<open>insertCodeToPrintGenericInt32\<close> asserts that the result is
  an \<open>i32\<close>.\<close>

definition computeKernelLoopIterationCount ::
  "Invocation \<Rightarrow> (32 word \<times> string list) list \<Rightarrow> 32 word
     \<Rightarrow> heap \<times> (32 word \<rightharpoonup> Value) \<times> (32 word \<rightharpoonup> bool)
     \<Rightarrow> (error + (heap \<times> (32 word \<rightharpoonup> Value) \<times> (32 word \<rightharpoonup> bool))) option" where
  "computeKernelLoopIterationCount CI kernelLoopToBoundsMap LoopID st =
    (case st of
       (h, LoopIDToNumIterationsMap, LoopIDToIncompMap) \<Rightarrow>
        (case partiallyEvaluatedLoopIters kernelLoopToBoundsMap h LoopID of
           Inl e \<Rightarrow> Some (Inl e)
         | Inr (h1, LoopIters) \<Rightarrow>
            (if LoopIters = None then
               Some (Inr (h1, LoopIDToNumIterationsMap, LoopIDToIncompMap(LoopID \<mapsto> True)))
             else
               (case identifyUnknownsFromExpressionTree CI h1 [] LoopIters of
                  None \<Rightarrow> None
                | Some Unknowns \<Rightarrow>
                   (if None \<in> set (map snd Unknowns) then Some (Inl NullDereference)
                    else
                      (case insertLoopItersEvaluationCode h1 Unknowns LoopIters of
                         None \<Rightarrow> None
                       | Some (Inl e) \<Rightarrow> Some (Inl e)
                       | Some (Inr (h2, ItersValue)) \<Rightarrow>
                          (case ItersValue of
                             None \<Rightarrow> Some (Inl NullDereference)
                           | Some v \<Rightarrow>
                              (if isIntegerTy32 v then
                                 Some (Inr (h2, LoopIDToNumIterationsMap(LoopID \<mapsto> v),
                                            LoopIDToIncompMap(LoopID \<mapsto> False)))
                               else Some (Inl AssertionFailed)))))))))"

text \<open>\<open>insertCodeToComputeKernelLoopIterationCount\<close>: the loops of the table,
  in key order.\<close>

fun insertCodeToComputeKernelLoopIterationCount_loop ::
  "Invocation \<Rightarrow> (32 word \<times> string list) list \<Rightarrow> 32 word list
     \<Rightarrow> heap \<times> (32 word \<rightharpoonup> Value) \<times> (32 word \<rightharpoonup> bool)
     \<Rightarrow> (error + (heap \<times> (32 word \<rightharpoonup> Value) \<times> (32 word \<rightharpoonup> bool))) option" where
  "insertCodeToComputeKernelLoopIterationCount_loop CI tbl [] st = Some (Inr st)"
| "insertCodeToComputeKernelLoopIterationCount_loop CI tbl (LoopID # rest) st =
    (case computeKernelLoopIterationCount CI tbl LoopID st of
       None \<Rightarrow> None
     | Some (Inl e) \<Rightarrow> Some (Inl e)
     | Some (Inr st') \<Rightarrow> insertCodeToComputeKernelLoopIterationCount_loop CI tbl rest st')"

definition insertCodeToComputeKernelLoopIterationCount ::
  "Invocation \<Rightarrow> (32 word \<times> string list) list
     \<Rightarrow> heap \<times> (32 word \<rightharpoonup> Value) \<times> (32 word \<rightharpoonup> bool)
     \<Rightarrow> (error + (heap \<times> (32 word \<rightharpoonup> Value) \<times> (32 word \<rightharpoonup> bool))) option" where
  "insertCodeToComputeKernelLoopIterationCount CI kernelLoopToBoundsMap st =
     insertCodeToComputeKernelLoopIterationCount_loop CI kernelLoopToBoundsMap
       (map fst kernelLoopToBoundsMap) st"




subsection \<open>The execution count of an access\<close>








text \<open>The invariant of running \<open>evaluateRPNforMax\<close> and \<open>evaluateRPNforMin\<close>
  side by side on the same tokens: two nodes of the same kind, argument index
  and text; and two stack entries, one of each run, that are either the same
  token of the original store (the first \<open>n0\<close> nodes) or two result nodes, the
  value held by the one of the min run being at most the value held by the one of
  the max run.\<close>

definition sameKind :: "ExprTreeNode \<Rightarrow> ExprTreeNode \<Rightarrow> bool" where
  "sameKind a b = (op a = op b \<and> arg a = arg b \<and> original_str a = original_str b)"

definition boundsOrdered :: "nat \<Rightarrow> heap \<Rightarrow> heap \<Rightarrow> nat \<Rightarrow> nat \<Rightarrow> bool" where
  "boundsOrdered n0 hM hm i j =
    (val (hm ! j) \<le> val (hM ! i) \<and> sameKind (hM ! i) (hm ! j)
     \<and> i < length hM \<and> j < length hm
     \<and> ((i < n0 \<and> j = i \<and> op (hM ! i) \<noteq> ETO_INTERM) \<or> (n0 \<le> i \<and> n0 \<le> j)))"

section \<open>Properties\<close>

subsection \<open>Token classification: tokens with a leading minus sign\<close>

lemma isNumber_loop_minus:
  "tok ! 0 = CHR ''-'' \<Longrightarrow> isNumber_loop tok cs"
  by (induction cs) simp_all

text \<open>C10. Every token whose first character is \<open>-\<close> is classified as a numeric
  constant (\<open>ETO_CONST\<close>) whatever its remaining characters are: \<open>isNumber\<close>
  skips the digit check at every position of such a token.\<close>

theorem minus_token_is_const:
  "isNumber (CHR ''-'' # rest) \<and> getExprTreeOp (CHR ''-'' # rest) = Inr ETO_CONST"
  by (simp add: isNumber_def getExprTreeOp_def isNumber_loop_minus)

theorem minus_token_is_const_witness:
  "isNumber ''-x1y'' \<and> getExprTreeOp ''-x1y'' = Inr ETO_CONST"
  using minus_token_is_const [of "''x1y''"] by simp

subsection \<open>Evaluation of the builder and the evaluators on concrete inputs\<close>

lemmas token_eval =
  isNumber_def isDigit_def stoi_def isspace_def digitsValue_def
  new_ExprTreeNode_def isOperation_def operations_def

lemmas builder_eval =
  createExpressionTree_def getExprTreeOp_def treeStep_def isPhiNode_def upt_rec
  getExprTreeNodeArg_def attachChildren_def

lemmas evaluator_eval =
  evaluateExpressionTree_def toRPN.simps evaluateRPN_def isTerminal_def
  terminals_def operate_def operate_res_def getActualHostValueForLiterals_def
  lookup0_def initialInvocation_def


subsection \<open>The scenario \<open>4 ARG0 MUL\<close>\<close>

text \<open>C1, as stated, fails: \<open>createExpressionTree\<close> reverses its token vector
  before the stack scan, so on the input \<open>["4","ARG0","MUL"]\<close> the scan meets
  \<open>MUL\<close> first, finds the stack empty and returns \<open>nullptr\<close>.\<close>

theorem postfix_input_yields_no_tree:
  "map_sum id snd (createExpressionTree [] [''4'', ''ARG0'', ''MUL'']) = Inr None"
  by (simp add: token_eval builder_eval)

text \<open>C1, amended. The stack scan consumes the postfix sequence
  \<open>4 ARG0 MUL\<close> when the input vector is its reverse, \<open>["MUL","ARG0","4"]\<close>. For
  that input the builder produces a \<open>mul\<close> root (node 2) whose \<open>children[0]\<close>
  is \<open>arg0\<close> (node 1) and whose \<open>children[1]\<close> is the constant 4 (node 0), and
  concrete evaluation of that tree, with argument 0 bound to the constant 10,
  returns 40.\<close>

theorem mul_scenario:
  "createExpressionTree [] [''MUL'', ''ARG0'', ''4''] =
     Inr ([\<lparr>op = ETO_CONST, arg = 0, val = 0, original_str = ''4'', parent = Some 2,
             isProb = False, children0 = None, children1 = None\<rparr>,
           \<lparr>op = ETO_ARG, arg = 0, val = 0, original_str = ''ARG0'', parent = Some 2,
             isProb = False, children0 = None, children1 = None\<rparr>,
           \<lparr>op = ETO_MUL, arg = 0, val = 0, original_str = ''MUL'', parent = None,
             isProb = False, children0 = Some 1, children1 = Some 0\<rparr>],
          Some 2)
   \<and> map_option (map_sum id snd)
       (evaluateExpressionTree
          (initialInvocation\<lparr>KernelInvocationToArgNumberToConstantMap := [0 \<mapsto> ConstantInt (I32 10)]\<rparr>)
          [\<lparr>op = ETO_CONST, arg = 0, val = 0, original_str = ''4'', parent = Some 2,
             isProb = False, children0 = None, children1 = None\<rparr>,
           \<lparr>op = ETO_ARG, arg = 0, val = 0, original_str = ''ARG0'', parent = Some 2,
             isProb = False, children0 = None, children1 = None\<rparr>,
           \<lparr>op = ETO_MUL, arg = 0, val = 0, original_str = ''MUL'', parent = None,
             isProb = False, children0 = Some 1, children1 = Some 0\<rparr>]
          (Some 2))
     = Some (Inr 40)"
  by (simp add: token_eval builder_eval evaluator_eval)

subsection \<open>Edge cases of the builder\<close>

text \<open>C7, as stated, fails for the incomplete marker: the builder looks at the
  first token after reversing the vector, that is at the last token of its input.
  A stream that begins with \<open>INCOMP\<close> and goes on yields no tree here.\<close>

theorem incomp_first_yields_no_sentinel:
  "map_sum id snd (createExpressionTree [] [''INCOMP'', ''ARG0'', ''ADD'']) = Inr None"
  by (simp add: token_eval builder_eval)

lemma rev_nth_0_last: "xs \<noteq> [] \<Longrightarrow> rev xs ! 0 = last xs"
  by (simp add: hd_rev flip: hd_conv_nth)

text \<open>C7, amended. The builder returns no tree for an empty token list; a single
  node of kind \<open>ETO_PC\<close>, without children or parent, for every list of more
  than 50 tokens; and a single node of kind \<open>ETO_INCOMP\<close> for every list of 1 to
  50 tokens whose last token (the first one after the reversal) is \<open>INCOMP\<close>.\<close>

theorem builder_edge_cases:
  "createExpressionTree h [] = Inr (h, None)
   \<and> (length RPN > 50 \<longrightarrow>
        createExpressionTree h RPN =
          Inr (h @ [new_ExprTreeNode\<lparr>op := ETO_PC\<rparr>], Some (length h))
        \<and> isPointerChase (new_ExprTreeNode\<lparr>op := ETO_PC\<rparr>))
   \<and> (RPN \<noteq> [] \<and> length RPN \<le> 50 \<and> last RPN = ''INCOMP'' \<longrightarrow>
        createExpressionTree h RPN =
          Inr (h @ [new_ExprTreeNode\<lparr>op := ETO_INCOMP\<rparr>], Some (length h)))
   \<and> children0 new_ExprTreeNode = None \<and> children1 new_ExprTreeNode = None
   \<and> parent new_ExprTreeNode = None"
  by (auto simp: createExpressionTree_def isPointerChase_def new_ExprTreeNode_def
        rev_nth_0_last Let_def)

theorem builder_edge_cases_witness:
  "createExpressionTree [] [] = Inr ([], None)
   \<and> createExpressionTree [] (replicate 51 ''ARG0'') =
        Inr ([new_ExprTreeNode\<lparr>op := ETO_PC\<rparr>], Some 0)
   \<and> createExpressionTree [] [''ARG0'', ''INCOMP''] =
        Inr ([new_ExprTreeNode\<lparr>op := ETO_INCOMP\<rparr>], Some 0)"
  using builder_edge_cases [of "[]" "replicate 51 ''ARG0''"]
    builder_edge_cases [of "[]" "[''ARG0'', ''INCOMP'']"]
  by simp

subsection \<open>The two-state phi protocol and the shape of built nodes\<close>



















subsection \<open>The coefficient extractor\<close>






lemma unat_ucast_32_64: "unat (ucast (w :: 32 word) :: 64 word) = unat w"
proof -
  have "unat w < 2 ^ 32" using unsigned_less [of w] by simp
  then have "unat w < 2 ^ 64" by simp
  then show ?thesis by (simp add: unsigned_ucast_eq take_bit_nat_eq_self)
qed


















subsection \<open>The indirection test on two loads\<close>

text \<open>C6 fails on the code. The token \<open>LOAD\<close> is mapped to \<open>ETO_MEMOP\<close> (the
  later comparison that would give \<open>ETO_LOAD\<close> is never reached), and the loop
  of \<open>isIndirectAccess\<close> tests the kind of \<open>root\<close>, not of the node it visits.
  So the tree built from \<open>( LOAD ( LOAD ( ARG0 ) ) )\<close> is not flagged, and neither
  is a tree with two nodes of kind \<open>ETO_LOAD\<close> under a \<open>GEP\<close> root.\<close>

theorem two_loads_not_flagged:
  "createExpressionTreeAdvanced []
     [''('', ''LOAD'', ''('', ''LOAD'', ''('', ''ARG0'', '')'', '')'', '')''] =
   Inr ([\<lparr>op = ETO_MEMOP, arg = 0, val = 0, original_str = ''LOAD'', parent = None,
           isProb = False, children = [1]\<rparr>,
         \<lparr>op = ETO_MEMOP, arg = 0, val = 0, original_str = ''LOAD'', parent = Some 0,
           isProb = False, children = [2]\<rparr>,
         \<lparr>op = ETO_ARG, arg = 0, val = 0, original_str = ''ARG0'', parent = Some 1,
           isProb = False, children = []\<rparr>], Some 0)
   \<and> isIndirectAccess
        [\<lparr>op = ETO_MEMOP, arg = 0, val = 0, original_str = ''LOAD'', parent = None,
           isProb = False, children = [1]\<rparr>,
         \<lparr>op = ETO_MEMOP, arg = 0, val = 0, original_str = ''LOAD'', parent = Some 0,
           isProb = False, children = [2]\<rparr>,
         \<lparr>op = ETO_ARG, arg = 0, val = 0, original_str = ''ARG0'', parent = Some 1,
           isProb = False, children = []\<rparr>] (Some 0) = Some False
   \<and> isIndirectAccess
        [\<lparr>op = ETO_GEP, arg = 0, val = 0, original_str = ''GEP'', parent = None,
           isProb = False, children = [1, 2]\<rparr>,
         \<lparr>op = ETO_LOAD, arg = 0, val = 0, original_str = ''LOAD'', parent = Some 0,
           isProb = False, children = []\<rparr>,
         \<lparr>op = ETO_LOAD, arg = 0, val = 0, original_str = ''LOAD'', parent = Some 0,
           isProb = False, children = []\<rparr>] (Some 0) = Some False"
  by (simp add: createExpressionTreeAdvanced_def token_eval getExprTreeOp_def
       new_ExprTreeNodeAdvanced_def getExprTreeNodeArg_def isIndirectAccess_def
       isIndirectAccess_loop.simps)

subsection \<open>Bound-specific values of terminals\<close>

text \<open>What the two resolution functions return for the terminals that do not
  go through the grid-size value of the call site: in both modes the loop
  argument gives 0 and a phi-term of the loop id 0 gives 1; in min mode the
  four index terminals give 0 and a phi-term of another loop the value of the
  loop's lower bound expression; in max mode a thread index gives the block
  dimension minus one, a phi-term the value of the upper bound expression, and
  a block index, when the call site has no grid-size value, the constant grid
  dimension minus one.\<close>

lemma terminal_bounds:
  "(op (h ! n) \<in> {ETO_TIDX, ETO_TIDY, ETO_BIDX, ETO_BIDY} \<longrightarrow>
      getMinValueForLiterals CI h n LoopArg loopid = Some (Inr (h, 0)))
   \<and> (op (h ! n) = ETO_PHI_TERM \<longrightarrow>
      getMinValueForLiterals CI h n LoopArg 0 = Some (Inr (h, 1))
      \<and> getMaxValueForLiterals CI h n LoopArg 0 = Some (Inr (h, 1)))
   \<and> (op (h ! n) = ETO_PHI_TERM \<and> loopid \<noteq> 0
       \<and> evaluateExpressionTree CI h (LoopIDToBoundsExprMapIn CI loopid) = Some (Inr (h', v)) \<longrightarrow>
      getMinValueForLiterals CI h n LoopArg loopid = Some (Inr (h', ucast v)))
   \<and> (op (h ! n) = ETO_PHI_TERM \<and> loopid \<noteq> 0
       \<and> evaluateExpressionTree CI h (LoopIDToBoundsExprMapFin CI loopid) = Some (Inr (h', v)) \<longrightarrow>
      getMaxValueForLiterals CI h n LoopArg loopid = Some (Inr (h', ucast v)))
   \<and> (op (h ! n) = ETO_TIDX \<longrightarrow>
      getMaxValueForLiterals CI h n LoopArg loopid =
        Some (Inr (h, lookup0 (KernelInvocationToBlockSizeMap CI) AXIS_TYPE_BDIMX - 1)))
   \<and> (op (h ! n) = ETO_TIDY \<longrightarrow>
      getMaxValueForLiterals CI h n LoopArg loopid =
        Some (Inr (h, lookup0 (KernelInvocationToBlockSizeMap CI) AXIS_TYPE_BDIMY - 1)))
   \<and> (op (h ! n) = ETO_BIDX \<and> KernelInvocationToGridSizeValueMap CI AXIS_TYPE_GDIMX = None \<longrightarrow>
      getMaxValueForLiterals CI h n LoopArg loopid =
        Some (Inr (h, lookup0 (KernelInvocationToGridSizeMap CI) AXIS_TYPE_GDIMX - 1)))
   \<and> (op (h ! n) = ETO_BIDY \<and> KernelInvocationToGridSizeValueMap CI AXIS_TYPE_GDIMY = None \<longrightarrow>
      getMaxValueForLiterals CI h n LoopArg loopid =
        Some (Inr (h, lookup0 (KernelInvocationToGridSizeMap CI) AXIS_TYPE_GDIMY - 1)))"
  by (auto simp: getMinValueForLiterals_def getMaxValueForLiterals_def maxBlockIndex_def)

text \<open>Claim C2. In max mode a block-index terminal is to resolve to the grid
  dimension minus one, whether the grid dimension is a known constant or comes
  from evaluating the grid-size value of the call site at iteration 0. With the
  grid dimension 8 along x, the constant path returns 7; the path through the
  grid-size value (here a host value whose actual argument is the constant 8)
  returns 8: that branch of \<open>getMaxValueForLiterals\<close> returns \<open>griddimx\<close>
  without the decrement.\<close>

theorem block_index_max_without_decrement:
  "map_option (map_sum id snd) (getMaxValueForLiterals
      (initialInvocation\<lparr>
         KernelInvocationToGridSizeValueMap := [AXIS_TYPE_GDIMX \<mapsto> HostValue 0 (I32 8)],
         TerminalValues := [HostValue 0 (I32 8)],
         FormalArgumentToActualArgumentMap := [HostValue 0 (I32 8) \<mapsto> [ConstantInt (I32 8)]]\<rparr>)
      [new_ExprTreeNode\<lparr>op := ETO_BIDX, original_str := ''BIDX''\<rparr>] 0 0 0) = Some (Inr 8)
   \<and> map_option (map_sum id snd) (getMaxValueForLiterals
      (initialInvocation\<lparr>KernelInvocationToGridSizeMap := [AXIS_TYPE_GDIMX \<mapsto> 8]\<rparr>)
      [new_ExprTreeNode\<lparr>op := ETO_BIDX, original_str := ''BIDX''\<rparr>] 0 0 0) = Some (Inr 7)"
  by (simp add: getMaxValueForLiterals_def maxBlockIndex_def initialInvocation_def
       new_ExprTreeNode_def getExpressionTree_def getExpressionTree_loop.simps
       evaluateRPNForIter0_def lookup0_def)

subsection \<open>Loop iteration counts\<close>


















subsection \<open>Nested iteration counts and the execution count\<close>














subsection \<open>Max-mode and min-mode interval evaluation\<close>

text \<open>Word arithmetic: on operands below \<open>2 ^ 32\<close> the sums and products of
  \<open>operateMax\<close> and \<open>operateMin\<close> do not wrap around in 64 bits, so they are
  monotone; a left shift is monotone as long as it loses no bit.\<close>

lemma unat_ucast_64_32:
  fixes a :: "64 word"
  assumes "a < 2 ^ 32"
  shows "unat (ucast a :: 32 word) = unat a"
proof -
  from assms have "unat a < 2 ^ 32" by (simp add: word_less_nat_alt)
  then show ?thesis by (simp add: unsigned_ucast_eq take_bit_nat_eq_self)
qed

lemma ucast_down_mono:
  fixes a b :: "64 word"
  assumes "b \<le> a" "a < 2 ^ 32"
  shows "(ucast b :: 32 word) \<le> ucast a"
proof -
  from assms have "b < 2 ^ 32" by simp
  with assms show ?thesis by (simp add: word_le_nat_alt unat_ucast_64_32)
qed

lemma ucast_up_mono:
  fixes v w :: "32 word"
  assumes "v \<le> w"
  shows "(ucast v :: 64 word) \<le> ucast w"
  using assms by (simp add: word_le_nat_alt unat_ucast_32_64)

lemma ucast_up_bound: "(ucast (w :: 32 word) :: 64 word) < 2 ^ 32"
proof -
  have "unat w < 2 ^ 32" using unsigned_less [of w] by simp
  then show ?thesis by (simp add: word_less_nat_alt unat_ucast_32_64)
qed

lemma small_product:
  fixes x1 x2 :: "64 word"
  assumes "x1 < 2 ^ 32" "x2 < 2 ^ 32"
  shows "unat x1 * unat x2 < 2 ^ 64" "unat x1 + unat x2 < 2 ^ 64"
proof -
  from assms have b: "unat x1 < 2 ^ 32" "unat x2 < 2 ^ 32" by (simp_all add: word_less_nat_alt)
  then have "unat x1 * unat x2 < 2 ^ 32 * 2 ^ 32" by (intro mult_strict_mono) simp_all
  then show "unat x1 * unat x2 < 2 ^ 64" by simp
  from b show "unat x1 + unat x2 < 2 ^ 64" by simp
qed

lemma mul_mono_64:
  fixes x1 x2 y1 y2 :: "64 word"
  assumes "y1 \<le> x1" "y2 \<le> x2" "unat x1 * unat x2 < 2 ^ 64"
  shows "y1 * y2 \<le> x1 * x2"
proof -
  from assms have le: "unat y1 * unat y2 \<le> unat x1 * unat x2"
    by (intro mult_mono) (simp_all add: word_le_nat_alt)
  with assms have "unat y1 * unat y2 < 2 ^ 64" by simp
  then have "unat (y1 * y2) = unat y1 * unat y2"
    using unat_mult_lem [of y1 y2] by simp
  moreover have "unat (x1 * x2) = unat x1 * unat x2"
    using assms unat_mult_lem [of x1 x2] by simp
  ultimately show ?thesis using le by (simp add: word_le_nat_alt)
qed

lemma add_mono_64:
  fixes x1 x2 y1 y2 :: "64 word"
  assumes "y1 \<le> x1" "y2 \<le> x2" "unat x1 + unat x2 < 2 ^ 64"
  shows "y1 + y2 \<le> x1 + x2"
proof -
  from assms have le: "unat y1 + unat y2 \<le> unat x1 + unat x2"
    by (intro add_mono) (simp_all add: word_le_nat_alt)
  with assms have "unat y1 + unat y2 < 2 ^ 64" by simp
  then have "unat (y1 + y2) = unat y1 + unat y2"
    using unat_add_lem [of y1 y2] by simp
  moreover have "unat (x1 + x2) = unat x1 + unat x2"
    using assms unat_add_lem [of x1 x2] by simp
  ultimately show ?thesis using le by (simp add: word_le_nat_alt)
qed

lemma unat_two_power_64:
  assumes "n < 64"
  shows "unat ((2::64 word) ^ n) = 2 ^ n"
proof -
  have "(2::64 word) ^ n = of_nat (2 ^ n)" by simp
  then have "unat ((2::64 word) ^ n) = 2 ^ n mod 2 ^ 64" by (simp only: unat_of_nat) simp
  moreover have "(2::nat) ^ n < 2 ^ 64"
    using assms power_strict_increasing [of n 64 "2::nat"] by simp
  ultimately show ?thesis by simp
qed

lemma shl_mono_64:
  fixes x1 x2 y1 y2 :: "64 word"
  assumes "y1 \<le> x1" "y2 \<le> x2" "unat x1 * 2 ^ unat x2 < 2 ^ 64"
  shows "push_bit (unat y2) y1 \<le> push_bit (unat x2) x1"
proof (cases "x1 = 0")
  case True
  with assms have "y1 = 0" by simp
  with True show ?thesis by simp
next
  case False
  then have "0 < unat x1" by (simp add: unat_gt_0)
  then have "(2::nat) ^ unat x2 \<le> unat x1 * 2 ^ unat x2" by simp
  also have "\<dots> < 2 ^ 64" by (rule assms(3))
  finally have "(2::nat) ^ unat x2 < 2 ^ 64" .
  then have x: "unat x2 < 64" by (simp only: power_strict_increasing_iff [of 2] one_less_numeral_iff semiring_norm)
  with assms have y: "unat y2 < 64" by (simp add: word_le_nat_alt)
  have ux: "unat ((2::64 word) ^ unat x2) = 2 ^ unat x2" using x by (rule unat_two_power_64)
  have uy: "unat ((2::64 word) ^ unat y2) = 2 ^ unat y2" using y by (rule unat_two_power_64)
  have "(2::nat) ^ unat y2 \<le> 2 ^ unat x2"
    using assms by (intro power_increasing) (simp_all add: word_le_nat_alt)
  then have le2: "(2::64 word) ^ unat y2 \<le> 2 ^ unat x2"
    by (simp add: word_le_nat_alt ux uy)
  have "y1 * 2 ^ unat y2 \<le> x1 * 2 ^ unat x2"
    using assms(1) le2 assms(3) by (intro mul_mono_64) (simp_all add: ux)
  then show ?thesis by (simp add: push_bit_eq_mult)
qed

lemma reduction_ordered:
  fixes x1 x2 y1 y2 :: "64 word"
  assumes "y1 \<le> x1" "y2 \<le> x2" "x1 < 2 ^ 32" "x2 < 2 ^ 32"
    and "k = ETO_SHL \<longrightarrow> unat x2 < 64 \<and> unat x1 * 2 ^ unat x2 < 2 ^ 64"
  shows "\<exists>a b. operateMin_res k y1 y2 = Inr a \<and> operateMax_res k x1 x2 = Inr b \<and> a \<le> b"
proof -
  note sp = small_product [OF assms(3,4)]
  consider "k = ETO_PHI" | "k = ETO_SHL" | "k = ETO_MUL" | "k = ETO_ADD" | "k = ETO_OR"
    | "k \<notin> {ETO_PHI, ETO_SHL, ETO_MUL, ETO_ADD, ETO_OR}" by auto
  then show ?thesis
  proof cases
    case 1
    with assms show ?thesis by (auto simp: operateMin_res_def operateMax_res_def)
  next
    case 2
    from assms(2) have "unat y2 \<le> unat x2" by (simp add: word_le_nat_alt)
    with 2 assms(5) have "unat y2 < 64" by simp
    with 2 assms shl_mono_64 [of y1 x1 y2 x2] show ?thesis
      by (simp add: operateMin_res_def operateMax_res_def operate_res_def)
  next
    case 3
    with mul_mono_64 [OF assms(1,2) sp(1)] show ?thesis
      by (simp add: operateMin_res_def operateMax_res_def operate_res_def)
  next
    case 4
    with add_mono_64 [OF assms(1,2) sp(2)] show ?thesis
      by (simp add: operateMin_res_def operateMax_res_def operate_res_def)
  next
    case 5
    with add_mono_64 [OF assms(1,2) sp(2)] show ?thesis
      by (simp add: operateMin_res_def operateMax_res_def operate_res_def)
  next
    case 6
    then show ?thesis
      by (simp add: operateMin_res_def operateMax_res_def operate_res_def)
  qed
qed


lemma paired_store: "map_sum id (Pair h) y = Inr (h', v) \<Longrightarrow> h' = h"
  by (cases y) auto

lemma paired_store_option: "map_option (map_sum id (Pair h)) x = Some (Inr (h', v)) \<Longrightarrow> h' = h"
  by (cases x) (auto dest: paired_store)

lemma max_literal_store:
  "getMaxValueForLiterals CI h n LA 0 = Some (Inr (h', v)) \<Longrightarrow> h' = h"
  by (auto simp: getMaxValueForLiterals_def split: if_splits
        dest: paired_store paired_store_option)

lemma min_literal_store:
  "getMinValueForLiterals CI h n LA 0 = Some (Inr (h', v)) \<Longrightarrow> h' = h"
  by (auto simp: getMinValueForLiterals_def split: if_splits
        dest: paired_store paired_store_option)

lemma host_value_same:
  assumes "sameKind a b" "op a \<noteq> ETO_INTERM"
  shows "getActualHostValueForLiterals CI a = getActualHostValueForLiterals CI b"
proof -
  from assms(1) have e: "op a = op b" "arg a = arg b" "original_str a = original_str b"
    by (simp_all add: sameKind_def)
  from assms(2) e have "op b \<noteq> ETO_INTERM" by simp
  then show ?thesis unfolding getActualHostValueForLiterals_def e by simp
qed

lemma literal_ordered:
  assumes k: "sameKind (hM ! i) (hm ! j)"
    and v: "op (hM ! i) = ETO_INTERM \<longrightarrow> val (hm ! j) \<le> val (hM ! i) \<and> val (hM ! i) < 2 ^ 32"
    and M: "getMaxValueForLiterals CI hM i LA 0 = Some (Inr (hM', vM))"
    and m: "getMinValueForLiterals CI hm j LA 0 = Some (Inr (hm', vm))"
  shows "vm \<le> vM"
proof -
  from k have o: "op (hm ! j) = op (hM ! i)" "arg (hm ! j) = arg (hM ! i)"
    by (simp_all add: sameKind_def)
  consider "op (hM ! i) = ETO_ARG" | "op (hM ! i) = ETO_PHI_TERM"
    | "op (hM ! i) \<in> {ETO_BIDX, ETO_BIDY, ETO_TIDX, ETO_TIDY}"
    | "op (hM ! i) = ETO_INTERM"
    | "op (hM ! i) \<notin> {ETO_ARG, ETO_PHI_TERM, ETO_BIDX, ETO_BIDY, ETO_TIDX, ETO_TIDY, ETO_INTERM}"
    by auto
  then show ?thesis
  proof cases
    case 1
    with M m o host_value_same [OF k, of CI] show ?thesis
      by (auto simp: getMaxValueForLiterals_def getMinValueForLiterals_def map_sum_def
            split: if_splits sum.splits)
  next
    case 2
    with M m o show ?thesis
      by (simp add: getMaxValueForLiterals_def getMinValueForLiterals_def)
  next
    case 3
    with m o have "vm = 0"
      by (auto simp: getMinValueForLiterals_def)
    then show ?thesis by simp
  next
    case 4
    with M m o have "vM = ucast (val (hM ! i))" "vm = ucast (val (hm ! j))"
      by (auto simp: getMaxValueForLiterals_def getMinValueForLiterals_def
            getActualHostValueForLiterals_def)
    with 4 v show ?thesis by (simp add: ucast_down_mono)
  next
    case 5
    with M m o host_value_same [OF k, of CI] show ?thesis
      by (auto simp: getMaxValueForLiterals_def getMinValueForLiterals_def map_sum_def
            split: sum.splits)
  qed
qed

lemma operateMax_unfold:
  assumes "operateMax CI h t a1 a2 LA 0 = Some (Inr (h1, r))"
  shows "\<exists>v1 v2 res.
      getMaxValueForLiterals CI (h @ [new_ExprTreeNode]) a1 LA 0 =
        Some (Inr (h @ [new_ExprTreeNode], v1))
      \<and> getMaxValueForLiterals CI (h @ [new_ExprTreeNode]) a2 LA 0 =
        Some (Inr (h @ [new_ExprTreeNode], v2))
      \<and> operateMax_res (op ((h @ [new_ExprTreeNode]) ! t)) (ucast v1) (ucast v2) = Inr res
      \<and> r = length h
      \<and> h1[r := (h1 ! r)\<lparr>op := ETO_INTERM\<rparr>] =
          h @ [new_ExprTreeNode\<lparr>op := ETO_INTERM, val := res\<rparr>]"
proof -
  let ?h0 = "h @ [new_ExprTreeNode]"
  from assms obtain hA v1 where A: "getMaxValueForLiterals CI ?h0 a1 LA 0 = Some (Inr (hA, v1))"
    by (auto simp: operateMax_def Let_def split: option.splits sum.splits)
  then have hA: "hA = ?h0" by (rule max_literal_store)
  from assms A hA obtain hB v2 where B: "getMaxValueForLiterals CI ?h0 a2 LA 0 = Some (Inr (hB, v2))"
    by (auto simp: operateMax_def Let_def split: option.splits sum.splits)
  then have hB: "hB = ?h0" by (rule max_literal_store)
  from assms A B hA hB obtain res where
    R: "operateMax_res (op (?h0 ! t)) (ucast v1) (ucast v2) = Inr res"
    and h1: "h1 = ?h0[length h := (?h0 ! length h)\<lparr>op := ETO_INTERM, val := res\<rparr>]"
    and r: "r = length h"
    by (auto simp: operateMax_def Let_def split: sum.splits)
  from h1 r have "h1[r := (h1 ! r)\<lparr>op := ETO_INTERM\<rparr>] =
      h @ [new_ExprTreeNode\<lparr>op := ETO_INTERM, val := res\<rparr>]"
    by simp
  with A B R r hA hB show ?thesis by blast
qed

lemma operateMin_unfold:
  assumes "operateMin CI h t a1 a2 LA 0 = Some (Inr (h1, r))"
  shows "\<exists>v1 v2 res.
      getMinValueForLiterals CI (h @ [new_ExprTreeNode]) a1 LA 0 =
        Some (Inr (h @ [new_ExprTreeNode], v1))
      \<and> getMinValueForLiterals CI (h @ [new_ExprTreeNode]) a2 LA 0 =
        Some (Inr (h @ [new_ExprTreeNode], v2))
      \<and> operateMin_res (op ((h @ [new_ExprTreeNode]) ! t)) (ucast v1) (ucast v2) = Inr res
      \<and> r = length h
      \<and> h1[r := (h1 ! r)\<lparr>op := ETO_INTERM\<rparr>] =
          h @ [new_ExprTreeNode\<lparr>op := ETO_INTERM, val := res\<rparr>]"
proof -
  let ?h0 = "h @ [new_ExprTreeNode]"
  from assms obtain hA v1 where A: "getMinValueForLiterals CI ?h0 a1 LA 0 = Some (Inr (hA, v1))"
    by (auto simp: operateMin_def Let_def split: option.splits sum.splits)
  then have hA: "hA = ?h0" by (rule min_literal_store)
  from assms A hA obtain hB v2 where B: "getMinValueForLiterals CI ?h0 a2 LA 0 = Some (Inr (hB, v2))"
    by (auto simp: operateMin_def Let_def split: option.splits sum.splits)
  then have hB: "hB = ?h0" by (rule min_literal_store)
  from assms A B hA hB obtain res where
    R: "operateMin_res (op (?h0 ! t)) (ucast v1) (ucast v2) = Inr res"
    and h1: "h1 = ?h0[length h := (?h0 ! length h)\<lparr>op := ETO_INTERM, val := res\<rparr>]"
    and r: "r = length h"
    by (auto simp: operateMin_def Let_def split: sum.splits)
  from h1 r have "h1[r := (h1 ! r)\<lparr>op := ETO_INTERM\<rparr>] =
      h @ [new_ExprTreeNode\<lparr>op := ETO_INTERM, val := res\<rparr>]"
    by simp
  with A B R r hA hB show ?thesis by blast
qed


lemma max_run_frame:
  assumes "evaluateRPNforMax_loop CI h RPN s LA 0 = Some (Inr (h', s'))"
    and "\<forall>t\<in>set RPN. t < n0" and "n0 \<le> length h"
  shows "length h \<le> length h' \<and> (\<forall>i. n0 \<le> i \<and> i < length h \<longrightarrow> h' ! i = h ! i)"
  using assms
proof (induction RPN arbitrary: h s)
  case Nil
  then show ?case by simp
next
  case (Cons t rest)
  show ?case
  proof (cases "isOperation (h ! t)")
    case True
    with Cons.prems(1) obtain a1 a2 s2 h1 r where
      o: "operateMax CI h t a1 a2 LA 0 = Some (Inr (h1, r))" and
      run: "evaluateRPNforMax_loop CI (h1[r := (h1 ! r)\<lparr>op := ETO_INTERM\<rparr>]) rest (r # s2) LA 0
              = Some (Inr (h', s'))"
      by (auto split: list.splits if_splits option.splits sum.splits)
    from operateMax_unfold [OF o] obtain res where
      h1: "h1[r := (h1 ! r)\<lparr>op := ETO_INTERM\<rparr>] =
             h @ [new_ExprTreeNode\<lparr>op := ETO_INTERM, val := res\<rparr>]"
      by blast
    let ?H = "h @ [new_ExprTreeNode\<lparr>op := ETO_INTERM, val := res\<rparr>]"
    from run h1 have run': "evaluateRPNforMax_loop CI ?H rest (r # s2) LA 0 = Some (Inr (h', s'))"
      by simp
    from Cons.prems have "\<forall>t\<in>set rest. t < n0" "n0 \<le> length ?H" by simp_all
    from Cons.IH [OF run' this]
    have "length ?H \<le> length h' \<and> (\<forall>i. n0 \<le> i \<and> i < length ?H \<longrightarrow> h' ! i = ?H ! i)" .
    then show ?thesis by (auto simp: nth_append)
  next
    case False
    with Cons.prems(1) obtain hx v where
      g: "getMaxValueForLiterals CI h t LA 0 = Some (Inr (hx, v))" and
      run: "evaluateRPNforMax_loop CI (hx[t := (hx ! t)\<lparr>val := ucast v\<rparr>]) rest (t # s) LA 0
              = Some (Inr (h', s'))"
      by (auto split: option.splits sum.splits)
    from g have hx: "hx = h" by (rule max_literal_store)
    let ?H = "h[t := (h ! t)\<lparr>val := ucast v\<rparr>]"
    from run hx have run': "evaluateRPNforMax_loop CI ?H rest (t # s) LA 0 = Some (Inr (h', s'))"
      by simp
    from Cons.prems have "\<forall>t\<in>set rest. t < n0" "n0 \<le> length ?H" by simp_all
    from Cons.IH [OF run' this]
    have "length ?H \<le> length h' \<and> (\<forall>i. n0 \<le> i \<and> i < length ?H \<longrightarrow> h' ! i = ?H ! i)" .
    moreover from Cons.prems have "t < n0" by simp
    ultimately show ?thesis by auto
  qed
qed

lemma ordered_append:
  "boundsOrdered n0 hM hm i j \<Longrightarrow> boundsOrdered n0 (hM @ [x]) (hm @ [y]) i j"
  by (auto simp: boundsOrdered_def nth_append)

lemma val_update_fields:
  "op (h[t := (h ! t)\<lparr>val := v\<rparr>] ! i) = op (h ! i)"
  "arg (h[t := (h ! t)\<lparr>val := v\<rparr>] ! i) = arg (h ! i)"
  "original_str (h[t := (h ! t)\<lparr>val := v\<rparr>] ! i) = original_str (h ! i)"
proof -
  have "h[t := (h ! t)\<lparr>val := v\<rparr>] ! i =
      (if i = t \<and> t < length h then (h ! t)\<lparr>val := v\<rparr> else h ! i)"
    by (cases "t < length h") (simp_all add: nth_list_update list_update_beyond)
  then show "op (h[t := (h ! t)\<lparr>val := v\<rparr>] ! i) = op (h ! i)"
    "arg (h[t := (h ! t)\<lparr>val := v\<rparr>] ! i) = arg (h ! i)"
    "original_str (h[t := (h ! t)\<lparr>val := v\<rparr>] ! i) = original_str (h ! i)"
    by simp_all
qed

lemma val_update_val:
  "i < length h \<Longrightarrow> val (h[t := (h ! t)\<lparr>val := v\<rparr>] ! i) = (if i = t then v else val (h ! i))"
  by simp

lemma ordered_update:
  assumes "boundsOrdered n0 hM hm i j" "t < n0" "vm \<le> vM"
  shows "boundsOrdered n0 (hM[t := (hM ! t)\<lparr>val := vM\<rparr>]) (hm[t := (hm ! t)\<lparr>val := vm\<rparr>]) i j"
proof -
  from assms(1) have l: "i < length hM" "j < length hm" by (simp_all add: boundsOrdered_def)
  from assms(1) consider "i < n0" "j = i" | "n0 \<le> i" "n0 \<le> j" by (auto simp: boundsOrdered_def)
  then show ?thesis
  proof cases
    case 1
    with assms l show ?thesis
      by (auto simp: boundsOrdered_def sameKind_def val_update_fields val_update_val)
  next
    case 2
    with assms(2) have "i \<noteq> t" "j \<noteq> t" by simp_all
    with assms l 2 show ?thesis
      by (simp add: boundsOrdered_def sameKind_def val_update_fields val_update_val)
  qed
qed

lemma lockstep:
  assumes "evaluateRPNforMax_loop CI hM RPN sM LA 0 = Some (Inr (hM', sM'))"
    and "evaluateRPNforMin_loop CI hm RPN sm LA 0 = Some (Inr (hm', sm'))"
    and "\<forall>t\<in>set RPN. t < n0 \<and> op (hM ! t) \<noteq> ETO_INTERM \<and> op (hM ! t) \<noteq> ETO_SHL"
    and "n0 \<le> length hM" and "n0 \<le> length hm"
    and "\<forall>i<n0. sameKind (hM ! i) (hm ! i)"
    and "list_all2 (boundsOrdered n0 hM hm) sM sm"
    and "\<forall>i. n0 \<le> i \<and> i < length hM' \<longrightarrow> val (hM' ! i) < 2 ^ 32"
  shows "list_all2 (boundsOrdered n0 hM' hm') sM' sm'"
  using assms
proof (induction RPN arbitrary: hM hm sM sm)
  case Nil
  then show ?case by simp
next
  case (Cons t rest)
  from Cons.prems(3) have t: "t < n0" "op (hM ! t) \<noteq> ETO_INTERM" "op (hM ! t) \<noteq> ETO_SHL"
    and rest: "\<forall>t\<in>set rest. t < n0" by simp_all
  from t Cons.prems(6) have kt: "sameKind (hM ! t) (hm ! t)" by simp
  then have opt: "op (hm ! t) = op (hM ! t)" by (simp add: sameKind_def)
  show ?case
  proof (cases "isOperation (hM ! t)")
    case True
    with opt have Tm: "isOperation (hm ! t)" by (simp add: isOperation_def)
    from True Cons.prems(1) obtain a1 a2 sM2 hM1 rM where
      sM: "sM = a1 # a2 # sM2" and
      oM: "operateMax CI hM t a1 a2 LA 0 = Some (Inr (hM1, rM))" and
      runM: "evaluateRPNforMax_loop CI (hM1[rM := (hM1 ! rM)\<lparr>op := ETO_INTERM\<rparr>]) rest (rM # sM2) LA 0
              = Some (Inr (hM', sM'))"
      by (auto split: list.splits if_splits option.splits sum.splits)
    from Tm Cons.prems(2) obtain b1 b2 sm2 hm1 rm where
      sm: "sm = b1 # b2 # sm2" and
      om: "operateMin CI hm t b1 b2 LA 0 = Some (Inr (hm1, rm))" and
      runm: "evaluateRPNforMin_loop CI (hm1[rm := (hm1 ! rm)\<lparr>op := ETO_INTERM\<rparr>]) rest (rm # sm2) LA 0
              = Some (Inr (hm', sm'))"
      by (auto split: list.splits if_splits option.splits sum.splits)
    let ?M0 = "hM @ [new_ExprTreeNode]" and ?m0 = "hm @ [new_ExprTreeNode]"
    from operateMax_unfold [OF oM] obtain x1 x2 resM where
      gM1: "getMaxValueForLiterals CI ?M0 a1 LA 0 = Some (Inr (?M0, x1))" and
      gM2: "getMaxValueForLiterals CI ?M0 a2 LA 0 = Some (Inr (?M0, x2))" and
      rM: "operateMax_res (op (?M0 ! t)) (ucast x1) (ucast x2) = Inr resM" and
      lM: "rM = length hM" and
      hM1: "hM1[rM := (hM1 ! rM)\<lparr>op := ETO_INTERM\<rparr>] =
             hM @ [new_ExprTreeNode\<lparr>op := ETO_INTERM, val := resM\<rparr>]"
      by blast
    from operateMin_unfold [OF om] obtain y1 y2 resm where
      gm1: "getMinValueForLiterals CI ?m0 b1 LA 0 = Some (Inr (?m0, y1))" and
      gm2: "getMinValueForLiterals CI ?m0 b2 LA 0 = Some (Inr (?m0, y2))" and
      rm: "operateMin_res (op (?m0 ! t)) (ucast y1) (ucast y2) = Inr resm" and
      lm: "rm = length hm" and
      hm1: "hm1[rm := (hm1 ! rm)\<lparr>op := ETO_INTERM\<rparr>] =
             hm @ [new_ExprTreeNode\<lparr>op := ETO_INTERM, val := resm\<rparr>]"
      by blast
    let ?HM = "hM @ [new_ExprTreeNode\<lparr>op := ETO_INTERM, val := resM\<rparr>]"
    let ?Hm = "hm @ [new_ExprTreeNode\<lparr>op := ETO_INTERM, val := resm\<rparr>]"
    from runM hM1 have runM': "evaluateRPNforMax_loop CI ?HM rest (rM # sM2) LA 0 = Some (Inr (hM', sM'))"
      by simp
    from runm hm1 have runm': "evaluateRPNforMin_loop CI ?Hm rest (rm # sm2) LA 0 = Some (Inr (hm', sm'))"
      by simp
    from Cons.prems(7) sM sm have
      r1: "boundsOrdered n0 hM hm a1 b1" and r2: "boundsOrdered n0 hM hm a2 b2"
      and r3: "list_all2 (boundsOrdered n0 hM hm) sM2 sm2" by simp_all
    from Cons.prems(4) have nH: "n0 \<le> length ?HM" by simp
    note fr = max_run_frame [OF runM' rest nH]
    have small: "val (hM ! a) < 2 ^ 32" if "boundsOrdered n0 hM hm a b" "op (hM ! a) = ETO_INTERM"
      for a b
    proof -
      from that have a: "n0 \<le> a" "a < length hM" by (auto simp: boundsOrdered_def)
      with fr have "hM' ! a = ?HM ! a" "a < length hM'" by auto
      with a Cons.prems(8) show ?thesis by (auto simp: nth_append)
    qed
    have lit: "y \<le> x" if r: "boundsOrdered n0 hM hm a b"
      and gM: "getMaxValueForLiterals CI ?M0 a LA 0 = Some (Inr (?M0, x))"
      and gm: "getMinValueForLiterals CI ?m0 b LA 0 = Some (Inr (?m0, y))" for a b x y
    proof -
      from r have l: "a < length hM" "b < length hm" by (simp_all add: boundsOrdered_def)
      from r l have k: "sameKind (?M0 ! a) (?m0 ! b)" by (simp add: boundsOrdered_def nth_append)
      from r l small [OF r]
      have v: "op (?M0 ! a) = ETO_INTERM \<longrightarrow>
           val (?m0 ! b) \<le> val (?M0 ! a) \<and> val (?M0 ! a) < 2 ^ 32"
        by (simp add: boundsOrdered_def nth_append)
      from literal_ordered [OF k v gM gm] show ?thesis .
    qed
    from lit [OF r1 gM1 gm1] lit [OF r2 gM2 gm2] have le: "y1 \<le> x1" "y2 \<le> x2" .
    from t Cons.prems(4,5) opt have kM: "op (?M0 ! t) = op (hM ! t)" "op (?m0 ! t) = op (hM ! t)"
      by (simp_all add: nth_append)
    from t have "op (hM ! t) = ETO_SHL \<longrightarrow>
        unat (ucast x2 :: 64 word) < 64 \<and> unat (ucast x1 :: 64 word) * 2 ^ unat (ucast x2 :: 64 word) < 2 ^ 64"
      by simp
    from reduction_ordered [OF ucast_up_mono [OF le(1)] ucast_up_mono [OF le(2)]
        ucast_up_bound ucast_up_bound this]
    obtain a b where "operateMin_res (op (hM ! t)) (ucast y1) (ucast y2) = Inr a"
      "operateMax_res (op (hM ! t)) (ucast x1) (ucast x2) = Inr b" "a \<le> b"
      by blast
    with rM rm kM have res: "resm \<le> resM" by simp
    have head: "boundsOrdered n0 ?HM ?Hm rM rm"
      using res lM lm Cons.prems(4,5)
      by (simp add: boundsOrdered_def sameKind_def new_ExprTreeNode_def)
    from r3 have tail: "list_all2 (boundsOrdered n0 ?HM ?Hm) sM2 sm2"
      by (rule list_all2_mono) (rule ordered_append)
    have tok: "\<forall>t\<in>set rest. t < n0 \<and> op (?HM ! t) \<noteq> ETO_INTERM \<and> op (?HM ! t) \<noteq> ETO_SHL"
      using Cons.prems(3,4) by (auto simp: nth_append)
    have same: "\<forall>i<n0. sameKind (?HM ! i) (?Hm ! i)"
      using Cons.prems(4,5,6) by (auto simp: nth_append)
    from Cons.prems(5) have nm: "n0 \<le> length ?Hm" by simp
    from head tail have st: "list_all2 (boundsOrdered n0 ?HM ?Hm) (rM # sM2) (rm # sm2)" by simp
    from Cons.IH [OF runM' runm' tok nH nm same st Cons.prems(8)] show ?thesis .
  next
    case False
    with opt have Fm: "\<not> isOperation (hm ! t)" by (simp add: isOperation_def)
    from False Cons.prems(1) obtain hx x where
      gM: "getMaxValueForLiterals CI hM t LA 0 = Some (Inr (hx, x))" and
      runM: "evaluateRPNforMax_loop CI (hx[t := (hx ! t)\<lparr>val := ucast x\<rparr>]) rest (t # sM) LA 0
              = Some (Inr (hM', sM'))"
      by (auto split: option.splits sum.splits)
    from Fm Cons.prems(2) obtain hy y where
      gm: "getMinValueForLiterals CI hm t LA 0 = Some (Inr (hy, y))" and
      runm: "evaluateRPNforMin_loop CI (hy[t := (hy ! t)\<lparr>val := ucast y\<rparr>]) rest (t # sm) LA 0
              = Some (Inr (hm', sm'))"
      by (auto split: option.splits sum.splits)
    from gM have hx: "hx = hM" by (rule max_literal_store)
    from gm have hy: "hy = hm" by (rule min_literal_store)
    let ?HM = "hM[t := (hM ! t)\<lparr>val := ucast x\<rparr>]"
    let ?Hm = "hm[t := (hm ! t)\<lparr>val := ucast y\<rparr>]"
    from runM hx have runM': "evaluateRPNforMax_loop CI ?HM rest (t # sM) LA 0 = Some (Inr (hM', sM'))"
      by simp
    from runm hy have runm': "evaluateRPNforMin_loop CI ?Hm rest (t # sm) LA 0 = Some (Inr (hm', sm'))"
      by simp
    from t have v: "op (hM ! t) = ETO_INTERM \<longrightarrow> val (hm ! t) \<le> val (hM ! t) \<and> val (hM ! t) < 2 ^ 32"
      by simp
    from literal_ordered [OF kt v gM gm] have "y \<le> x" .
    then have le: "(ucast y :: 64 word) \<le> ucast x" by (rule ucast_up_mono)
    have head: "boundsOrdered n0 ?HM ?Hm t t"
      using le t kt Cons.prems(4,5)
      by (simp add: boundsOrdered_def sameKind_def val_update_fields)
    from Cons.prems(7) have tail: "list_all2 (boundsOrdered n0 ?HM ?Hm) sM sm"
      by (rule list_all2_mono) (rule ordered_update [OF _ t(1) le])
    have tok: "\<forall>t\<in>set rest. t < n0 \<and> op (?HM ! t) \<noteq> ETO_INTERM \<and> op (?HM ! t) \<noteq> ETO_SHL"
      using Cons.prems(3) by (simp add: val_update_fields)
    have same: "\<forall>i<n0. sameKind (?HM ! i) (?Hm ! i)"
      using Cons.prems(6) by (simp add: val_update_fields sameKind_def)
    from Cons.prems(4,5) have n: "n0 \<le> length ?HM" "n0 \<le> length ?Hm" by simp_all
    from head tail have st: "list_all2 (boundsOrdered n0 ?HM ?Hm) (t # sM) (t # sm)" by simp
    from Cons.IH [OF runM' runm' tok n same st Cons.prems(8)] show ?thesis .
  qed
qed


lemmas interval_eval =
  evaluateRPNforMax_def evaluateRPNforMin_def operateMax_def operateMin_def
  operateMax_res_def operateMin_res_def operate_res_def
  getMaxValueForLiterals_def getMinValueForLiterals_def
  getActualHostValueForLiterals_def isTerminal_def terminals_def lookup0_def
  initialInvocation_def

lemma ucast_minus_one_32_64: "(ucast (- 1 :: 32 word) :: 64 word) = 4294967295"
proof -
  have "(- 1 :: 32 word) = 4294967295" by simp
  then have "(ucast (- 1 :: 32 word) :: 64 word) = ucast (4294967295 :: 32 word)" by (simp only:)
  then show ?thesis by simp
qed

text \<open>Claim C9: the max-mode result of the interval evaluation is to be at least
  the min-mode result. The reductions \<open>operateMax\<close> and \<open>operateMin\<close> compute in
  \<open>unsigned long long\<close> and store the result in the 64-bit \<open>value\<close> of the result
  node, but \<open>getMaxValueForLiterals\<close> and \<open>getMinValueForLiterals\<close>, which read
  the operands, return \<open>unsigned\<close>: an intermediate result is cut to 32 bits when
  the next reduction reads it. For the expression \<open>(TIDX + -1) * 4\<close> (built from
  the tokens \<open>MUL ADD TIDX -1 4\<close>) and a block dimension of 2, the sum is
  \<open>2 ^ 32\<close> in max mode and \<open>2 ^ 32 - 1\<close> in min mode; read back, these are 0
  and \<open>2 ^ 32 - 1\<close>, and the results are 0 in max mode and 17179869180 in min
  mode. For \<open>ARG0 + (TIDX + 1) * 4194304\<close> and a block dimension of 1024 the
  product is \<open>2 ^ 32\<close> in max mode, read back as 0, and the results are 0 in max
  mode and 4194304 in min mode.\<close>

theorem truncated_max_below_min:
  "createExpressionTree [] [''MUL'', ''ADD'', ''TIDX'', ''-1'', ''4''] =
     Inr (
       [new_ExprTreeNode\<lparr>op := ETO_CONST, original_str := ''4'', parent := Some 4\<rparr>,
        new_ExprTreeNode\<lparr>op := ETO_CONST, original_str := ''-1'', parent := Some 3\<rparr>,
        new_ExprTreeNode\<lparr>op := ETO_TIDX, original_str := ''TIDX'', parent := Some 3\<rparr>,
        new_ExprTreeNode\<lparr>op := ETO_ADD, original_str := ''ADD'', parent := Some 4,
          children0 := Some 2, children1 := Some 1\<rparr>,
        new_ExprTreeNode\<lparr>op := ETO_MUL, original_str := ''MUL'', parent := None,
          children0 := Some 3, children1 := Some 0\<rparr>], Some 4)
   \<and> toRPN 
       [new_ExprTreeNode\<lparr>op := ETO_CONST, original_str := ''4'', parent := Some 4\<rparr>,
        new_ExprTreeNode\<lparr>op := ETO_CONST, original_str := ''-1'', parent := Some 3\<rparr>,
        new_ExprTreeNode\<lparr>op := ETO_TIDX, original_str := ''TIDX'', parent := Some 3\<rparr>,
        new_ExprTreeNode\<lparr>op := ETO_ADD, original_str := ''ADD'', parent := Some 4,
          children0 := Some 2, children1 := Some 1\<rparr>,
        new_ExprTreeNode\<lparr>op := ETO_MUL, original_str := ''MUL'', parent := None,
          children0 := Some 3, children1 := Some 0\<rparr>] [Some 4] [] = Some (Inr [4, 0, 3, 1, 2])
   \<and> map_option (map_sum id snd)
        (evaluateRPNforMax (initialInvocation\<lparr>KernelInvocationToBlockSizeMap := [AXIS_TYPE_BDIMX \<mapsto> 2]\<rparr>) 
       [new_ExprTreeNode\<lparr>op := ETO_CONST, original_str := ''4'', parent := Some 4\<rparr>,
        new_ExprTreeNode\<lparr>op := ETO_CONST, original_str := ''-1'', parent := Some 3\<rparr>,
        new_ExprTreeNode\<lparr>op := ETO_TIDX, original_str := ''TIDX'', parent := Some 3\<rparr>,
        new_ExprTreeNode\<lparr>op := ETO_ADD, original_str := ''ADD'', parent := Some 4,
          children0 := Some 2, children1 := Some 1\<rparr>,
        new_ExprTreeNode\<lparr>op := ETO_MUL, original_str := ''MUL'', parent := None,
          children0 := Some 3, children1 := Some 0\<rparr>] [2, 1, 3, 0, 4] 0 0) = Some (Inr 0)
   \<and> map_option (map_sum id snd)
        (evaluateRPNforMin (initialInvocation\<lparr>KernelInvocationToBlockSizeMap := [AXIS_TYPE_BDIMX \<mapsto> 2]\<rparr>) 
       [new_ExprTreeNode\<lparr>op := ETO_CONST, original_str := ''4'', parent := Some 4\<rparr>,
        new_ExprTreeNode\<lparr>op := ETO_CONST, original_str := ''-1'', parent := Some 3\<rparr>,
        new_ExprTreeNode\<lparr>op := ETO_TIDX, original_str := ''TIDX'', parent := Some 3\<rparr>,
        new_ExprTreeNode\<lparr>op := ETO_ADD, original_str := ''ADD'', parent := Some 4,
          children0 := Some 2, children1 := Some 1\<rparr>,
        new_ExprTreeNode\<lparr>op := ETO_MUL, original_str := ''MUL'', parent := None,
          children0 := Some 3, children1 := Some 0\<rparr>] [2, 1, 3, 0, 4] 0 0) = Some (Inr 17179869180)
   \<and> createExpressionTree [] [''ADD'', ''ARG0'', ''MUL'', ''ADD'', ''TIDX'', ''1'', ''4194304''] =
     Inr (
       [new_ExprTreeNode\<lparr>op := ETO_CONST, original_str := ''4194304'', parent := Some 4\<rparr>,
        new_ExprTreeNode\<lparr>op := ETO_CONST, original_str := ''1'', parent := Some 3\<rparr>,
        new_ExprTreeNode\<lparr>op := ETO_TIDX, original_str := ''TIDX'', parent := Some 3\<rparr>,
        new_ExprTreeNode\<lparr>op := ETO_ADD, original_str := ''ADD'', parent := Some 4,
          children0 := Some 2, children1 := Some 1\<rparr>,
        new_ExprTreeNode\<lparr>op := ETO_MUL, original_str := ''MUL'', parent := Some 6,
          children0 := Some 3, children1 := Some 0\<rparr>,
        new_ExprTreeNode\<lparr>op := ETO_ARG, original_str := ''ARG0'', parent := Some 6\<rparr>,
        new_ExprTreeNode\<lparr>op := ETO_ADD, original_str := ''ADD'', parent := None,
          children0 := Some 5, children1 := Some 4\<rparr>], Some 6)
   \<and> toRPN 
       [new_ExprTreeNode\<lparr>op := ETO_CONST, original_str := ''4194304'', parent := Some 4\<rparr>,
        new_ExprTreeNode\<lparr>op := ETO_CONST, original_str := ''1'', parent := Some 3\<rparr>,
        new_ExprTreeNode\<lparr>op := ETO_TIDX, original_str := ''TIDX'', parent := Some 3\<rparr>,
        new_ExprTreeNode\<lparr>op := ETO_ADD, original_str := ''ADD'', parent := Some 4,
          children0 := Some 2, children1 := Some 1\<rparr>,
        new_ExprTreeNode\<lparr>op := ETO_MUL, original_str := ''MUL'', parent := Some 6,
          children0 := Some 3, children1 := Some 0\<rparr>,
        new_ExprTreeNode\<lparr>op := ETO_ARG, original_str := ''ARG0'', parent := Some 6\<rparr>,
        new_ExprTreeNode\<lparr>op := ETO_ADD, original_str := ''ADD'', parent := None,
          children0 := Some 5, children1 := Some 4\<rparr>] [Some 6] [] = Some (Inr [6, 4, 0, 3, 1, 2, 5])
   \<and> map_option (map_sum id snd)
        (evaluateRPNforMax (initialInvocation\<lparr>KernelInvocationToBlockSizeMap := [AXIS_TYPE_BDIMX \<mapsto> 1024]\<rparr>) 
       [new_ExprTreeNode\<lparr>op := ETO_CONST, original_str := ''4194304'', parent := Some 4\<rparr>,
        new_ExprTreeNode\<lparr>op := ETO_CONST, original_str := ''1'', parent := Some 3\<rparr>,
        new_ExprTreeNode\<lparr>op := ETO_TIDX, original_str := ''TIDX'', parent := Some 3\<rparr>,
        new_ExprTreeNode\<lparr>op := ETO_ADD, original_str := ''ADD'', parent := Some 4,
          children0 := Some 2, children1 := Some 1\<rparr>,
        new_ExprTreeNode\<lparr>op := ETO_MUL, original_str := ''MUL'', parent := Some 6,
          children0 := Some 3, children1 := Some 0\<rparr>,
        new_ExprTreeNode\<lparr>op := ETO_ARG, original_str := ''ARG0'', parent := Some 6\<rparr>,
        new_ExprTreeNode\<lparr>op := ETO_ADD, original_str := ''ADD'', parent := None,
          children0 := Some 5, children1 := Some 4\<rparr>] [5, 2, 1, 3, 0, 4, 6] 1 0) = Some (Inr 0)
   \<and> map_option (map_sum id snd)
        (evaluateRPNforMin (initialInvocation\<lparr>KernelInvocationToBlockSizeMap := [AXIS_TYPE_BDIMX \<mapsto> 1024]\<rparr>) 
       [new_ExprTreeNode\<lparr>op := ETO_CONST, original_str := ''4194304'', parent := Some 4\<rparr>,
        new_ExprTreeNode\<lparr>op := ETO_CONST, original_str := ''1'', parent := Some 3\<rparr>,
        new_ExprTreeNode\<lparr>op := ETO_TIDX, original_str := ''TIDX'', parent := Some 3\<rparr>,
        new_ExprTreeNode\<lparr>op := ETO_ADD, original_str := ''ADD'', parent := Some 4,
          children0 := Some 2, children1 := Some 1\<rparr>,
        new_ExprTreeNode\<lparr>op := ETO_MUL, original_str := ''MUL'', parent := Some 6,
          children0 := Some 3, children1 := Some 0\<rparr>,
        new_ExprTreeNode\<lparr>op := ETO_ARG, original_str := ''ARG0'', parent := Some 6\<rparr>,
        new_ExprTreeNode\<lparr>op := ETO_ADD, original_str := ''ADD'', parent := None,
          children0 := Some 5, children1 := Some 4\<rparr>] [5, 2, 1, 3, 0, 4, 6] 1 0) = Some (Inr 4194304)"
proof (intro conjI)
  show "createExpressionTree [] [''MUL'', ''ADD'', ''TIDX'', ''-1'', ''4''] =
     Inr (
       [new_ExprTreeNode\<lparr>op := ETO_CONST, original_str := ''4'', parent := Some 4\<rparr>,
        new_ExprTreeNode\<lparr>op := ETO_CONST, original_str := ''-1'', parent := Some 3\<rparr>,
        new_ExprTreeNode\<lparr>op := ETO_TIDX, original_str := ''TIDX'', parent := Some 3\<rparr>,
        new_ExprTreeNode\<lparr>op := ETO_ADD, original_str := ''ADD'', parent := Some 4,
          children0 := Some 2, children1 := Some 1\<rparr>,
        new_ExprTreeNode\<lparr>op := ETO_MUL, original_str := ''MUL'', parent := None,
          children0 := Some 3, children1 := Some 0\<rparr>], Some 4)"
    by (simp add: token_eval builder_eval)
  show "toRPN 
       [new_ExprTreeNode\<lparr>op := ETO_CONST, original_str := ''4'', parent := Some 4\<rparr>,
        new_ExprTreeNode\<lparr>op := ETO_CONST, original_str := ''-1'', parent := Some 3\<rparr>,
        new_ExprTreeNode\<lparr>op := ETO_TIDX, original_str := ''TIDX'', parent := Some 3\<rparr>,
        new_ExprTreeNode\<lparr>op := ETO_ADD, original_str := ''ADD'', parent := Some 4,
          children0 := Some 2, children1 := Some 1\<rparr>,
        new_ExprTreeNode\<lparr>op := ETO_MUL, original_str := ''MUL'', parent := None,
          children0 := Some 3, children1 := Some 0\<rparr>] [Some 4] [] = Some (Inr [4, 0, 3, 1, 2])"
    by (simp add: toRPN.simps token_eval)
  show "map_option (map_sum id snd)
        (evaluateRPNforMax (initialInvocation\<lparr>KernelInvocationToBlockSizeMap := [AXIS_TYPE_BDIMX \<mapsto> 2]\<rparr>) 
       [new_ExprTreeNode\<lparr>op := ETO_CONST, original_str := ''4'', parent := Some 4\<rparr>,
        new_ExprTreeNode\<lparr>op := ETO_CONST, original_str := ''-1'', parent := Some 3\<rparr>,
        new_ExprTreeNode\<lparr>op := ETO_TIDX, original_str := ''TIDX'', parent := Some 3\<rparr>,
        new_ExprTreeNode\<lparr>op := ETO_ADD, original_str := ''ADD'', parent := Some 4,
          children0 := Some 2, children1 := Some 1\<rparr>,
        new_ExprTreeNode\<lparr>op := ETO_MUL, original_str := ''MUL'', parent := None,
          children0 := Some 3, children1 := Some 0\<rparr>] [2, 1, 3, 0, 4] 0 0) = Some (Inr 0)"
    by (simp add: interval_eval token_eval Let_def ucast_minus_one_32_64)
  show "map_option (map_sum id snd)
        (evaluateRPNforMin (initialInvocation\<lparr>KernelInvocationToBlockSizeMap := [AXIS_TYPE_BDIMX \<mapsto> 2]\<rparr>) 
       [new_ExprTreeNode\<lparr>op := ETO_CONST, original_str := ''4'', parent := Some 4\<rparr>,
        new_ExprTreeNode\<lparr>op := ETO_CONST, original_str := ''-1'', parent := Some 3\<rparr>,
        new_ExprTreeNode\<lparr>op := ETO_TIDX, original_str := ''TIDX'', parent := Some 3\<rparr>,
        new_ExprTreeNode\<lparr>op := ETO_ADD, original_str := ''ADD'', parent := Some 4,
          children0 := Some 2, children1 := Some 1\<rparr>,
        new_ExprTreeNode\<lparr>op := ETO_MUL, original_str := ''MUL'', parent := None,
          children0 := Some 3, children1 := Some 0\<rparr>] [2, 1, 3, 0, 4] 0 0) = Some (Inr 17179869180)"
    by (simp add: interval_eval token_eval Let_def ucast_minus_one_32_64)
  show "createExpressionTree [] [''ADD'', ''ARG0'', ''MUL'', ''ADD'', ''TIDX'', ''1'', ''4194304''] =
     Inr (
       [new_ExprTreeNode\<lparr>op := ETO_CONST, original_str := ''4194304'', parent := Some 4\<rparr>,
        new_ExprTreeNode\<lparr>op := ETO_CONST, original_str := ''1'', parent := Some 3\<rparr>,
        new_ExprTreeNode\<lparr>op := ETO_TIDX, original_str := ''TIDX'', parent := Some 3\<rparr>,
        new_ExprTreeNode\<lparr>op := ETO_ADD, original_str := ''ADD'', parent := Some 4,
          children0 := Some 2, children1 := Some 1\<rparr>,
        new_ExprTreeNode\<lparr>op := ETO_MUL, original_str := ''MUL'', parent := Some 6,
          children0 := Some 3, children1 := Some 0\<rparr>,
        new_ExprTreeNode\<lparr>op := ETO_ARG, original_str := ''ARG0'', parent := Some 6\<rparr>,
        new_ExprTreeNode\<lparr>op := ETO_ADD, original_str := ''ADD'', parent := None,
          children0 := Some 5, children1 := Some 4\<rparr>], Some 6)"
    by (simp add: token_eval builder_eval)
  show "toRPN 
       [new_ExprTreeNode\<lparr>op := ETO_CONST, original_str := ''4194304'', parent := Some 4\<rparr>,
        new_ExprTreeNode\<lparr>op := ETO_CONST, original_str := ''1'', parent := Some 3\<rparr>,
        new_ExprTreeNode\<lparr>op := ETO_TIDX, original_str := ''TIDX'', parent := Some 3\<rparr>,
        new_ExprTreeNode\<lparr>op := ETO_ADD, original_str := ''ADD'', parent := Some 4,
          children0 := Some 2, children1 := Some 1\<rparr>,
        new_ExprTreeNode\<lparr>op := ETO_MUL, original_str := ''MUL'', parent := Some 6,
          children0 := Some 3, children1 := Some 0\<rparr>,
        new_ExprTreeNode\<lparr>op := ETO_ARG, original_str := ''ARG0'', parent := Some 6\<rparr>,
        new_ExprTreeNode\<lparr>op := ETO_ADD, original_str := ''ADD'', parent := None,
          children0 := Some 5, children1 := Some 4\<rparr>] [Some 6] [] = Some (Inr [6, 4, 0, 3, 1, 2, 5])"
    by (simp add: toRPN.simps token_eval)
  show "map_option (map_sum id snd)
        (evaluateRPNforMax (initialInvocation\<lparr>KernelInvocationToBlockSizeMap := [AXIS_TYPE_BDIMX \<mapsto> 1024]\<rparr>) 
       [new_ExprTreeNode\<lparr>op := ETO_CONST, original_str := ''4194304'', parent := Some 4\<rparr>,
        new_ExprTreeNode\<lparr>op := ETO_CONST, original_str := ''1'', parent := Some 3\<rparr>,
        new_ExprTreeNode\<lparr>op := ETO_TIDX, original_str := ''TIDX'', parent := Some 3\<rparr>,
        new_ExprTreeNode\<lparr>op := ETO_ADD, original_str := ''ADD'', parent := Some 4,
          children0 := Some 2, children1 := Some 1\<rparr>,
        new_ExprTreeNode\<lparr>op := ETO_MUL, original_str := ''MUL'', parent := Some 6,
          children0 := Some 3, children1 := Some 0\<rparr>,
        new_ExprTreeNode\<lparr>op := ETO_ARG, original_str := ''ARG0'', parent := Some 6\<rparr>,
        new_ExprTreeNode\<lparr>op := ETO_ADD, original_str := ''ADD'', parent := None,
          children0 := Some 5, children1 := Some 4\<rparr>] [5, 2, 1, 3, 0, 4, 6] 1 0) = Some (Inr 0)"
    by (simp add: interval_eval token_eval Let_def)
  show "map_option (map_sum id snd)
        (evaluateRPNforMin (initialInvocation\<lparr>KernelInvocationToBlockSizeMap := [AXIS_TYPE_BDIMX \<mapsto> 1024]\<rparr>) 
       [new_ExprTreeNode\<lparr>op := ETO_CONST, original_str := ''4194304'', parent := Some 4\<rparr>,
        new_ExprTreeNode\<lparr>op := ETO_CONST, original_str := ''1'', parent := Some 3\<rparr>,
        new_ExprTreeNode\<lparr>op := ETO_TIDX, original_str := ''TIDX'', parent := Some 3\<rparr>,
        new_ExprTreeNode\<lparr>op := ETO_ADD, original_str := ''ADD'', parent := Some 4,
          children0 := Some 2, children1 := Some 1\<rparr>,
        new_ExprTreeNode\<lparr>op := ETO_MUL, original_str := ''MUL'', parent := Some 6,
          children0 := Some 3, children1 := Some 0\<rparr>,
        new_ExprTreeNode\<lparr>op := ETO_ARG, original_str := ''ARG0'', parent := Some 6\<rparr>,
        new_ExprTreeNode\<lparr>op := ETO_ADD, original_str := ''ADD'', parent := None,
          children0 := Some 5, children1 := Some 4\<rparr>] [5, 2, 1, 3, 0, 4, 6] 1 0) = Some (Inr 4194304)"
    by (simp add: interval_eval token_eval Let_def)
qed

text \<open>Where no intermediate result is cut, the two evaluations are ordered. For
  a token sequence over the nodes of the store without shifts and without
  earlier intermediate results, evaluated by \<open>evaluateRPNforMax\<close> and
  \<open>evaluateRPNforMin\<close> with the loop id 0: when both return and every result
  node of the max run holds a value below \<open>2 ^ 32\<close>, the min-mode result is at
  most the max-mode result. And a single reduction, shifts included, is
  monotone: with operands below \<open>2 ^ 32\<close>, pairwise ordered, and a shift that
  loses no bit, the result of \<open>operateMin\<close> is at most the result of
  \<open>operateMax\<close>.\<close>

lemma ordered_without_truncation:
  "(list_all (\<lambda>t. t < length h \<and> op (h ! t) \<noteq> ETO_INTERM \<and> op (h ! t) \<noteq> ETO_SHL) RPN
      \<and> evaluateRPNforMax CI h RPN LoopArg 0 = Some (Inr (hM, vmax))
      \<and> evaluateRPNforMin CI h RPN LoopArg 0 = Some (Inr (hm, vmin))
      \<and> list_all (\<lambda>node. val node < 2 ^ 32) (drop (length h) hM) \<longrightarrow>
      vmin \<le> vmax)
   \<and> (y1 \<le> x1 \<and> y2 \<le> x2 \<and> x1 < 2 ^ 32 \<and> x2 < 2 ^ 32
       \<and> (k = ETO_SHL \<longrightarrow> unat x2 < 64 \<and> unat x1 * 2 ^ unat x2 < 2 ^ 64) \<longrightarrow>
      (\<exists>a b. operateMin_res k y1 y2 = Inr a \<and> operateMax_res k x1 x2 = Inr b \<and> a \<le> b))"
proof (intro conjI impI)
  assume a: "list_all (\<lambda>t. t < length h \<and> op (h ! t) \<noteq> ETO_INTERM \<and> op (h ! t) \<noteq> ETO_SHL) RPN
      \<and> evaluateRPNforMax CI h RPN LoopArg 0 = Some (Inr (hM, vmax))
      \<and> evaluateRPNforMin CI h RPN LoopArg 0 = Some (Inr (hm, vmin))
      \<and> list_all (\<lambda>node. val node < 2 ^ 32) (drop (length h) hM)"
  then obtain sM tM where
    runM: "evaluateRPNforMax_loop CI h RPN [] LoopArg 0 = Some (Inr (hM, tM # sM))"
    and vM: "vmax = val (hM ! tM)"
    by (auto simp: evaluateRPNforMax_def split: option.splits sum.splits list.splits)
  from a obtain sm tm where
    runm: "evaluateRPNforMin_loop CI h RPN [] LoopArg 0 = Some (Inr (hm, tm # sm))"
    and vm: "vmin = val (hm ! tm)"
    by (auto simp: evaluateRPNforMin_def split: option.splits sum.splits list.splits)
  from a have tok: "\<forall>t\<in>set RPN. t < length h \<and> op (h ! t) \<noteq> ETO_INTERM \<and> op (h ! t) \<noteq> ETO_SHL"
    by (simp add: list_all_iff)
  have small: "\<forall>i. length h \<le> i \<and> i < length hM \<longrightarrow> val (hM ! i) < 2 ^ 32"
  proof (intro allI impI)
    fix i assume i: "length h \<le> i \<and> i < length hM"
    from a have all: "\<forall>n<length (drop (length h) hM). val (drop (length h) hM ! n) < 2 ^ 32"
      by (simp only: list_all_length) simp
    from i have j: "i - length h < length (drop (length h) hM)" by (simp only: length_drop) arith
    from i have "drop (length h) hM ! (i - length h) = hM ! i" by simp
    with all [rule_format, OF j] show "val (hM ! i) < 2 ^ 32" by simp
  qed
  have "list_all2 (boundsOrdered (length h) hM hm) (tM # sM) (tm # sm)"
    by (rule lockstep [OF runM runm tok _ _ _ _ small]) (simp_all add: sameKind_def)
  then have "val (hm ! tm) \<le> val (hM ! tM)" by (simp add: boundsOrdered_def)
  with vM vm show "vmin \<le> vmax" by simp
next
  assume "y1 \<le> x1 \<and> y2 \<le> x2 \<and> x1 < 2 ^ 32 \<and> x2 < 2 ^ 32
       \<and> (k = ETO_SHL \<longrightarrow> unat x2 < 64 \<and> unat x1 * 2 ^ unat x2 < 2 ^ 64)"
  then show "\<exists>a b. operateMin_res k y1 y2 = Inr a \<and> operateMax_res k x1 x2 = Inr b \<and> a \<le> b"
    by (intro reduction_ordered) simp_all
qed

lemma ordered_without_truncation_example:
  "evaluateRPNforMax (initialInvocation\<lparr>KernelInvocationToBlockSizeMap := [AXIS_TYPE_BDIMX \<mapsto> 2]\<rparr>)
       
       [new_ExprTreeNode\<lparr>op := ETO_CONST, original_str := ''4'', parent := Some 4\<rparr>,
        new_ExprTreeNode\<lparr>op := ETO_CONST, original_str := ''1'', parent := Some 3\<rparr>,
        new_ExprTreeNode\<lparr>op := ETO_TIDX, original_str := ''TIDX'', parent := Some 3\<rparr>,
        new_ExprTreeNode\<lparr>op := ETO_ADD, original_str := ''ADD'', parent := Some 4,
          children0 := Some 2, children1 := Some 1\<rparr>,
        new_ExprTreeNode\<lparr>op := ETO_MUL, original_str := ''MUL'', parent := None,
          children0 := Some 3, children1 := Some 0\<rparr>] [2, 1, 3, 0, 4] 0 0 =
     Some (Inr (
       [new_ExprTreeNode\<lparr>op := ETO_CONST, val := 4, original_str := ''4'', parent := Some 4\<rparr>,
        new_ExprTreeNode\<lparr>op := ETO_CONST, val := 1, original_str := ''1'', parent := Some 3\<rparr>,
        new_ExprTreeNode\<lparr>op := ETO_TIDX, val := 1, original_str := ''TIDX'', parent := Some 3\<rparr>,
        new_ExprTreeNode\<lparr>op := ETO_ADD, original_str := ''ADD'', parent := Some 4,
          children0 := Some 2, children1 := Some 1\<rparr>,
        new_ExprTreeNode\<lparr>op := ETO_MUL, original_str := ''MUL'', parent := None,
          children0 := Some 3, children1 := Some 0\<rparr>,
        new_ExprTreeNode\<lparr>op := ETO_INTERM, val := 2\<rparr>,
        new_ExprTreeNode\<lparr>op := ETO_INTERM, val := 8\<rparr>], 8))
   \<and> evaluateRPNforMin (initialInvocation\<lparr>KernelInvocationToBlockSizeMap := [AXIS_TYPE_BDIMX \<mapsto> 2]\<rparr>)
       
       [new_ExprTreeNode\<lparr>op := ETO_CONST, original_str := ''4'', parent := Some 4\<rparr>,
        new_ExprTreeNode\<lparr>op := ETO_CONST, original_str := ''1'', parent := Some 3\<rparr>,
        new_ExprTreeNode\<lparr>op := ETO_TIDX, original_str := ''TIDX'', parent := Some 3\<rparr>,
        new_ExprTreeNode\<lparr>op := ETO_ADD, original_str := ''ADD'', parent := Some 4,
          children0 := Some 2, children1 := Some 1\<rparr>,
        new_ExprTreeNode\<lparr>op := ETO_MUL, original_str := ''MUL'', parent := None,
          children0 := Some 3, children1 := Some 0\<rparr>] [2, 1, 3, 0, 4] 0 0 =
     Some (Inr (
       [new_ExprTreeNode\<lparr>op := ETO_CONST, val := 4, original_str := ''4'', parent := Some 4\<rparr>,
        new_ExprTreeNode\<lparr>op := ETO_CONST, val := 1, original_str := ''1'', parent := Some 3\<rparr>,
        new_ExprTreeNode\<lparr>op := ETO_TIDX, val := 0, original_str := ''TIDX'', parent := Some 3\<rparr>,
        new_ExprTreeNode\<lparr>op := ETO_ADD, original_str := ''ADD'', parent := Some 4,
          children0 := Some 2, children1 := Some 1\<rparr>,
        new_ExprTreeNode\<lparr>op := ETO_MUL, original_str := ''MUL'', parent := None,
          children0 := Some 3, children1 := Some 0\<rparr>,
        new_ExprTreeNode\<lparr>op := ETO_INTERM, val := 1\<rparr>,
        new_ExprTreeNode\<lparr>op := ETO_INTERM, val := 4\<rparr>], 4))
   \<and> operateMin_res ETO_SHL 1 2 = Inr 4 \<and> operateMax_res ETO_SHL 3 2 = Inr 12"
  using ordered_without_truncation [where h = "
       [new_ExprTreeNode\<lparr>op := ETO_CONST, original_str := ''4'', parent := Some 4\<rparr>,
        new_ExprTreeNode\<lparr>op := ETO_CONST, original_str := ''1'', parent := Some 3\<rparr>,
        new_ExprTreeNode\<lparr>op := ETO_TIDX, original_str := ''TIDX'', parent := Some 3\<rparr>,
        new_ExprTreeNode\<lparr>op := ETO_ADD, original_str := ''ADD'', parent := Some 4,
          children0 := Some 2, children1 := Some 1\<rparr>,
        new_ExprTreeNode\<lparr>op := ETO_MUL, original_str := ''MUL'', parent := None,
          children0 := Some 3, children1 := Some 0\<rparr>]"
      and RPN = "[2, 1, 3, 0, 4]" and LoopArg = 0
      and CI = "(initialInvocation\<lparr>KernelInvocationToBlockSizeMap := [AXIS_TYPE_BDIMX \<mapsto> 2]\<rparr>)"
      and hM = "
       [new_ExprTreeNode\<lparr>op := ETO_CONST, val := 4, original_str := ''4'', parent := Some 4\<rparr>,
        new_ExprTreeNode\<lparr>op := ETO_CONST, val := 1, original_str := ''1'', parent := Some 3\<rparr>,
        new_ExprTreeNode\<lparr>op := ETO_TIDX, val := 1, original_str := ''TIDX'', parent := Some 3\<rparr>,
        new_ExprTreeNode\<lparr>op := ETO_ADD, original_str := ''ADD'', parent := Some 4,
          children0 := Some 2, children1 := Some 1\<rparr>,
        new_ExprTreeNode\<lparr>op := ETO_MUL, original_str := ''MUL'', parent := None,
          children0 := Some 3, children1 := Some 0\<rparr>,
        new_ExprTreeNode\<lparr>op := ETO_INTERM, val := 2\<rparr>,
        new_ExprTreeNode\<lparr>op := ETO_INTERM, val := 8\<rparr>]" and vmax = 8
      and hm = "
       [new_ExprTreeNode\<lparr>op := ETO_CONST, val := 4, original_str := ''4'', parent := Some 4\<rparr>,
        new_ExprTreeNode\<lparr>op := ETO_CONST, val := 1, original_str := ''1'', parent := Some 3\<rparr>,
        new_ExprTreeNode\<lparr>op := ETO_TIDX, val := 0, original_str := ''TIDX'', parent := Some 3\<rparr>,
        new_ExprTreeNode\<lparr>op := ETO_ADD, original_str := ''ADD'', parent := Some 4,
          children0 := Some 2, children1 := Some 1\<rparr>,
        new_ExprTreeNode\<lparr>op := ETO_MUL, original_str := ''MUL'', parent := None,
          children0 := Some 3, children1 := Some 0\<rparr>,
        new_ExprTreeNode\<lparr>op := ETO_INTERM, val := 1\<rparr>,
        new_ExprTreeNode\<lparr>op := ETO_INTERM, val := 4\<rparr>]" and vmin = 4
      and ?y1.0 = 1 and ?x1.0 = 3 and ?y2.0 = 2 and ?x2.0 = 2 and k = ETO_SHL]
  by (simp add: interval_eval token_eval Let_def)

end
